theory Spec2Isabelle
  imports Complex_Main
begin

section \<open>Tensors of the numerical library\<close>

text \<open>
  The script \<^verbatim>\<open>qadence_trial.py\<close> works on torch tensors. Element values are taken in
  the real numbers (rounding of the 32-bit floats is not represented); the one
  not-a-number the script can produce from real data, the mean of a tensor with no
  element, is kept as the value \<open>None\<close> of a loss. An exception of the library is a
  value of \<open>error\<close>, and every operation that can raise returns \<open>error + 'a\<close>. The
  library's RuntimeError carries its cause: a tensor to differentiate with respect to
  that does not require a gradient, a tensor to differentiate that has no graph, or
  shapes that do not broadcast.

  A tensor is a scalar (rank 0), a vector (rank 1) or a matrix (rank 2, with its number
  of columns, so that a matrix with no row still has a shape).
\<close>

datatype cause = NotRequiringGrad | NoGradFn | SizeMismatch

datatype error = IndexError | RuntimeError cause

datatype 'a tensor = Scalar 'a | Vec "'a list" | Mat nat "'a list list"

type_synonym loss = "real option"

fun elements :: "'a tensor \<Rightarrow> 'a list" where
  "elements (Scalar a) = [a]"
| "elements (Vec xs) = xs"
| "elements (Mat m rows) = concat rows"

fun nrows :: "'a tensor \<Rightarrow> nat" where
  "nrows (Scalar a) = 0"
| "nrows (Vec xs) = length xs"
| "nrows (Mat m rows) = length rows"

text \<open>\<^verbatim>\<open>t.pow(k)\<close>: elementwise.\<close>

definition tpow :: "real tensor \<Rightarrow> nat \<Rightarrow> real tensor" where
  "tpow t k = map_tensor (\<lambda>x. x ^ k) t"

text \<open>\<^verbatim>\<open>t.mean()\<close>: the sum of all elements over their number; nan for no element.\<close>

definition mean :: "real tensor \<Rightarrow> loss" where
  "mean t = (if elements t = [] then None
             else Some (sum_list (elements t) / real (length (elements t))))"

text \<open>
  \<^verbatim>\<open>t[:, j] = v\<close> and \<^verbatim>\<open>t[:, j]\<close>: defined on a matrix with a column \<open>j\<close>; torch raises
  IndexError for a column that does not exist and for a tensor of lower rank.
\<close>

fun setitem_col :: "nat \<Rightarrow> 'a \<Rightarrow> 'a tensor \<Rightarrow> error + 'a tensor" where
  "setitem_col j v (Mat m rows) =
     (if j < m then Inr (Mat m (map (\<lambda>r. r[j := v]) rows)) else Inl IndexError)"
| "setitem_col j v (Vec xs) = Inl IndexError"
| "setitem_col j v (Scalar a) = Inl IndexError"

fun getitem_col :: "nat \<Rightarrow> 'a tensor \<Rightarrow> error + 'a list" where
  "getitem_col j (Mat m rows) =
     (if j < m then Inr (map (\<lambda>r. r ! j) rows) else Inl IndexError)"
| "getitem_col j (Vec xs) = Inl IndexError"
| "getitem_col j (Scalar a) = Inl IndexError"

text \<open>
  Binary elementwise operations broadcast. The script only ever has a vector as right
  operand (\<^verbatim>\<open>sin(np.pi * sample[:, 0])\<close>, \<^verbatim>\<open>second_both[:, 1]\<close>), so the operation is
  given for a right operand of rank 1: two dimensions are compatible when they are equal
  or one of them is 1; a matrix is combined row by row with the vector, which is laid
  along its columns. Incompatible shapes raise RuntimeError.
\<close>

definition broadcast_list :: "('a \<Rightarrow> 'a \<Rightarrow> 'a) \<Rightarrow> 'a list \<Rightarrow> 'a list \<Rightarrow> 'a list" where
  "broadcast_list f xs ys =
     (if length xs = length ys then map2 f xs ys
      else if length xs = 1 then map (f (hd xs)) ys
      else map (\<lambda>x. f x (hd ys)) xs)"

definition compatible :: "nat \<Rightarrow> nat \<Rightarrow> bool" where
  "compatible a b = (a = b \<or> a = 1 \<or> b = 1)"

fun broadcast_vec :: "('a \<Rightarrow> 'a \<Rightarrow> 'a) \<Rightarrow> 'a tensor \<Rightarrow> 'a list \<Rightarrow> error + 'a tensor" where
  "broadcast_vec f (Scalar a) ys = Inr (Vec (map (f a) ys))"
| "broadcast_vec f (Vec xs) ys =
     (if compatible (length xs) (length ys) then Inr (Vec (broadcast_list f xs ys))
      else Inl (RuntimeError SizeMismatch))"
| "broadcast_vec f (Mat m rows) ys =
     (if compatible m (length ys)
      then Inr (Mat (if m = 1 then length ys else m) (map (\<lambda>r. broadcast_list f r ys) rows))
      else Inl (RuntimeError SizeMismatch))"

definition tsub :: "real tensor \<Rightarrow> real list \<Rightarrow> error + real tensor" where
  "tsub t ys = broadcast_vec (\<lambda>a b. a - b) t ys"

definition tadd :: "real tensor \<Rightarrow> real list \<Rightarrow> error + real tensor" where
  "tadd t ys = broadcast_vec (\<lambda>a b. a + b) t ys"

section \<open>Computation graphs and tensors that track gradients\<close>

text \<open>
  A tensor that takes part in differentiation carries, next to its values, the graph
  that produced them. A graph node is an expression over the leaves, the elements
  \<open>Leaf i j\<close> of the batch the derivative is later taken with respect to (row \<open>i\<close>,
  column \<open>j\<close>).
\<close>

datatype node =
    Const real
  | Leaf nat nat
  | Add node node
  | Mul node node
  | Sin node
  | Cos node
  | Exp node

record ttensor =
  data :: "real tensor"
  requires_grad :: bool
  grad_fn :: "node tensor option"

text \<open>
  The value of a node, given the value of every leaf, and its derivative with respect to
  one leaf, again a node (the graph of a derivative can itself be differentiated, which
  is what \<^verbatim>\<open>create_graph=True\<close> asks for).
\<close>

fun eval :: "(nat \<Rightarrow> nat \<Rightarrow> real) \<Rightarrow> node \<Rightarrow> real" where
  "eval env (Const c) = c"
| "eval env (Leaf i j) = env i j"
| "eval env (Add a b) = eval env a + eval env b"
| "eval env (Mul a b) = eval env a * eval env b"
| "eval env (Sin a) = sin (eval env a)"
| "eval env (Cos a) = cos (eval env a)"
| "eval env (Exp a) = exp (eval env a)"

fun partial :: "nat \<Rightarrow> nat \<Rightarrow> node \<Rightarrow> node" where
  "partial i j (Const c) = Const 0"
| "partial i j (Leaf i' j') = Const (if i' = i \<and> j' = j then 1 else 0)"
| "partial i j (Add a b) = Add (partial i j a) (partial i j b)"
| "partial i j (Mul a b) = Add (Mul (partial i j a) b) (Mul a (partial i j b))"
| "partial i j (Sin a) = Mul (Cos a) (partial i j a)"
| "partial i j (Cos a) = Mul (Mul (Const (- 1)) (Sin a)) (partial i j a)"
| "partial i j (Exp a) = Mul (Exp a) (partial i j a)"

definition sum_nodes :: "node list \<Rightarrow> node" where
  "sum_nodes ns = foldr Add ns (Const 0)"

text \<open>
  The element of a tensor at row \<open>i\<close>, column \<open>j\<close> (a vector has the column 0 only, a
  scalar the position \<open>(0, 0)\<close> only); 0 where the tensor has no such element.
\<close>

definition entry :: "real list list \<Rightarrow> nat \<Rightarrow> nat \<Rightarrow> real" where
  "entry rows i j = (if i < length rows \<and> j < length (rows ! i) then rows ! i ! j else 0)"

fun element_at :: "real tensor \<Rightarrow> nat \<Rightarrow> nat \<Rightarrow> real" where
  "element_at (Mat m rows) i j = entry rows i j"
| "element_at (Vec xs) i j = (if i < length xs \<and> j = 0 then xs ! i else 0)"
| "element_at (Scalar a) i j = (if i = 0 \<and> j = 0 then a else 0)"

text \<open>
  Reverse-mode differentiation as the library documents it, for \<open>inputs\<close> a tensor whose
  element in row \<open>i\<close>, column \<open>j\<close> is the leaf \<open>Leaf i j\<close>: with
  \<^verbatim>\<open>grad_outputs=ones_like(outputs)\<close> the result has the shape of \<open>inputs\<close>, and its
  element \<open>(i, j)\<close> is the sum over all elements of \<open>outputs\<close> of their derivative with
  respect to that leaf. The library refuses, in this order, an \<open>outputs\<close> that has no
  graph and an \<open>inputs\<close> that does not require a gradient. This is a stand-in for the
  library, used on the test fixtures only, and it is more permissive than the library:
  the library also refuses an \<open>inputs\<close> that the graph of \<open>outputs\<close> does not reach, and
  gives a derivative that does not depend on \<open>inputs\<close> no graph, so that it refuses to
  differentiate it again; here the derivative is then zero and has a graph. The sampler
  does not depend on this definition: it calls the \<open>grad\<close> it is given.
\<close>

definition gradient_nodes :: "node tensor \<Rightarrow> real tensor \<Rightarrow> node tensor" where
  "gradient_nodes g t =
     (case t of
        Mat m rows \<Rightarrow>
          Mat m (map (\<lambda>i. map (\<lambda>j. sum_nodes (map (partial i j) (elements g))) [0..<m])
                   [0..<length rows])
      | Vec xs \<Rightarrow> Vec (map (\<lambda>i. sum_nodes (map (partial i 0) (elements g))) [0..<length xs])
      | Scalar a \<Rightarrow> Scalar (sum_nodes (map (partial 0 0) (elements g))))"

definition autograd :: "ttensor \<Rightarrow> ttensor \<Rightarrow> error + ttensor" where
  "autograd outputs inputs =
     (case grad_fn outputs of
        None \<Rightarrow> Inl (RuntimeError NoGradFn)
      | Some g \<Rightarrow>
          (if \<not> requires_grad inputs then Inl (RuntimeError NotRequiringGrad)
           else (let d = gradient_nodes g (data inputs)
                 in Inr \<lparr>data = map_tensor (eval (element_at (data inputs))) d,
                         requires_grad = True, grad_fn = Some d\<rparr>)))"

section \<open>External collaborators and the state of the script\<close>

text \<open>
  The script owns neither the random generator, nor reverse-mode differentiation, nor the
  optimizer, nor the model: they are parameters of the embedding.
  \<^item> \<open>seed_state\<close> is the state \<^verbatim>\<open>manual_seed(s)\<close> puts the process-wide generator in,
    \<open>next_uniform\<close> draws one number from it;
  \<^item> \<open>grad\<close> is \<^verbatim>\<open>torch.autograd.grad(inputs, outputs, grad_outputs=ones_like(outputs),
    create_graph=True, retain_graph=True)[0]\<close>, which may raise;
  \<^item> \<open>zero_grad\<close>, \<open>backward\<close> and \<open>step\<close> are \<^verbatim>\<open>opt.zero_grad()\<close>, \<^verbatim>\<open>loss.backward()\<close>
    and \<^verbatim>\<open>opt.step()\<close>, acting on the trainable parameters \<open>'p\<close> and on the
    accumulated gradients and optimizer state \<open>'q\<close>. The library's \<open>backward\<close> follows
    the graph of the loss down to the parameters; that graph is not represented, and
    \<open>backward\<close> is any function of the loss, the parameters and the optimizer state.
\<close>

record ('g, 'p, 'q) torch =
  seed_state :: "nat \<Rightarrow> 'g"
  next_uniform :: "'g \<Rightarrow> real \<times> 'g"
  grad :: "ttensor \<Rightarrow> ttensor \<Rightarrow> error + ttensor"
  zero_grad :: "'q \<Rightarrow> 'q"
  backward :: "loss \<Rightarrow> 'p \<Rightarrow> 'q \<Rightarrow> error + 'q"
  step :: "'q \<Rightarrow> 'p \<Rightarrow> 'p \<times> 'q"

text \<open>
  \<^verbatim>\<open>class DomainSampling\<close>: the three attributes set by \<^verbatim>\<open>__init__\<close>. The model \<open>net\<close> is
  any function from its current parameters and a batch to a tensor, or an exception.
\<close>

record 'p DomainSampling =
  net :: "'p \<Rightarrow> ttensor \<Rightarrow> error + ttensor"
  n_inputs :: nat
  n_colpoints :: nat

text \<open>
  \<^verbatim>\<open>__init__(self, net, n_inputs=4, n_colpoints=20)\<close> with its defaults, and the sampler the
  script builds, \<^verbatim>\<open>DomainSampling(net=model, n_inputs=2, n_colpoints=100)\<close>.
\<close>

definition DomainSampling_init ::
  "('p \<Rightarrow> ttensor \<Rightarrow> error + ttensor) \<Rightarrow> nat \<Rightarrow> nat \<Rightarrow> 'p DomainSampling" where
  "DomainSampling_init f m n = \<lparr>net = f, n_inputs = m, n_colpoints = n\<rparr>"

definition default_sampler :: "('p \<Rightarrow> ttensor \<Rightarrow> error + ttensor) \<Rightarrow> 'p DomainSampling" where
  "default_sampler f = DomainSampling_init f 4 20"

definition script_sampler :: "('p \<Rightarrow> ttensor \<Rightarrow> error + ttensor) \<Rightarrow> 'p DomainSampling" where
  "script_sampler f = DomainSampling_init f 2 100"

datatype event =
    ZeroGrad | LeftBoundary | RightBoundary | TopBoundary | BottomBoundary | Interior
  | Backward | Step

text \<open>
  The globals of the script that its functions read or write: the generator behind
  \<^verbatim>\<open>rand\<close>, the sampler \<^verbatim>\<open>sol\<close>, the parameters of \<^verbatim>\<open>model\<close>, the state of \<^verbatim>\<open>opt\<close>,
  and the calls the training loop has made so far.
\<close>

record ('g, 'p, 'q) globals =
  generator :: 'g
  sol :: "'p DomainSampling"
  params :: 'p
  opt :: 'q
  calls :: "event list"

definition manual_seed ::
  "('g, 'p, 'q) torch \<Rightarrow> nat \<Rightarrow> ('g, 'p, 'q) globals \<Rightarrow> ('g, 'p, 'q) globals" where
  "manual_seed T s w = w\<lparr>generator := seed_state T s\<rparr>"

text \<open>\<^verbatim>\<open>rand(size=(n, m))\<close>: \<open>n\<close> rows of \<open>m\<close> draws each, in row-major order.\<close>

fun draw_row :: "('g \<Rightarrow> real \<times> 'g) \<Rightarrow> nat \<Rightarrow> 'g \<Rightarrow> real list \<times> 'g" where
  "draw_row d 0 g = ([], g)"
| "draw_row d (Suc k) g =
     (case d g of (x, g1) \<Rightarrow> case draw_row d k g1 of (xs, g2) \<Rightarrow> (x # xs, g2))"

fun draw_rows :: "('g \<Rightarrow> real \<times> 'g) \<Rightarrow> nat \<Rightarrow> nat \<Rightarrow> 'g \<Rightarrow> real list list \<times> 'g" where
  "draw_rows d 0 m g = ([], g)"
| "draw_rows d (Suc n) m g =
     (case draw_row d m g of (r, g1) \<Rightarrow> case draw_rows d n m g1 of (rs, g2) \<Rightarrow> (r # rs, g2))"

definition rand ::
  "('g, 'p, 'q) torch \<Rightarrow> nat \<Rightarrow> nat \<Rightarrow> bool \<Rightarrow> 'g \<Rightarrow> ttensor \<times> 'g" where
  "rand T n m rg g =
     (case draw_rows (next_uniform T) n m g of
        (rows, g') \<Rightarrow> (\<lparr>data = Mat m rows, requires_grad = rg, grad_fn = None\<rparr>, g'))"

section \<open>The derivative helper\<close>

text \<open>
  \<^verbatim>\<open>calc_derivative(outputs, inputs)\<close> writes the flag of the caller's tensor, so the
  function returns the tensor \<open>inputs\<close> as it is after the call next to its result.
\<close>

definition calc_derivative ::
  "('g, 'p, 'q) torch \<Rightarrow> ttensor \<Rightarrow> ttensor \<Rightarrow> (error + ttensor) \<times> ttensor" where
  "calc_derivative T outputs inputs =
     (let inputs' = (if \<not> requires_grad inputs then inputs\<lparr>requires_grad := True\<rparr>
                     else inputs)
      in (grad T outputs inputs', inputs'))"

section \<open>The residual sampler\<close>

text \<open>
  Each method draws its batch, overwrites one column, and calls the model. The batch as
  it is handed to the model is a definition of its own (\<open>left_sample\<close>, ...), with the
  generator after the draw. A method returns its loss and the globals after the call.
\<close>

definition pinned_sample ::
  "('g, 'p, 'q) torch \<Rightarrow> nat \<Rightarrow> real \<Rightarrow> ('g, 'p, 'q) globals \<Rightarrow> error + ttensor \<times> 'g" where
  "pinned_sample T j v w =
     (case rand T (n_colpoints (sol w)) (n_inputs (sol w)) False (generator w) of
        (sample, g') \<Rightarrow>
          (case setitem_col j v (data sample) of
             Inl e \<Rightarrow> Inl e
           | Inr d \<Rightarrow> Inr (sample\<lparr>data := d\<rparr>, g')))"

definition left_sample ::
  "('g, 'p, 'q) torch \<Rightarrow> ('g, 'p, 'q) globals \<Rightarrow> error + ttensor \<times> 'g" where
  "left_sample T w = pinned_sample T 0 0 w"

definition right_sample ::
  "('g, 'p, 'q) torch \<Rightarrow> ('g, 'p, 'q) globals \<Rightarrow> error + ttensor \<times> 'g" where
  "right_sample T w = pinned_sample T 0 1 w"

definition top_sample ::
  "('g, 'p, 'q) torch \<Rightarrow> ('g, 'p, 'q) globals \<Rightarrow> error + ttensor \<times> 'g" where
  "top_sample T w = pinned_sample T 1 1 w"

definition bottom_sample ::
  "('g, 'p, 'q) torch \<Rightarrow> ('g, 'p, 'q) globals \<Rightarrow> error + ttensor \<times> 'g" where
  "bottom_sample T w = pinned_sample T 1 0 w"

definition left_boundary ::
  "('g, 'p, 'q) torch \<Rightarrow> ('g, 'p, 'q) globals \<Rightarrow> error + loss \<times> ('g, 'p, 'q) globals" where
  "left_boundary T w =
     (case left_sample T w of
        Inl e \<Rightarrow> Inl e
      | Inr (sample, g') \<Rightarrow>
          (case net (sol w) (params w) sample of
             Inl e \<Rightarrow> Inl e
           | Inr out \<Rightarrow> Inr (mean (tpow (data out) 2), w\<lparr>generator := g'\<rparr>)))"

definition right_boundary ::
  "('g, 'p, 'q) torch \<Rightarrow> ('g, 'p, 'q) globals \<Rightarrow> error + loss \<times> ('g, 'p, 'q) globals" where
  "right_boundary T w =
     (case right_sample T w of
        Inl e \<Rightarrow> Inl e
      | Inr (sample, g') \<Rightarrow>
          (case net (sol w) (params w) sample of
             Inl e \<Rightarrow> Inl e
           | Inr out \<Rightarrow> Inr (mean (tpow (data out) 2), w\<lparr>generator := g'\<rparr>)))"

definition top_boundary ::
  "('g, 'p, 'q) torch \<Rightarrow> ('g, 'p, 'q) globals \<Rightarrow> error + loss \<times> ('g, 'p, 'q) globals" where
  "top_boundary T w =
     (case top_sample T w of
        Inl e \<Rightarrow> Inl e
      | Inr (sample, g') \<Rightarrow>
          (case net (sol w) (params w) sample of
             Inl e \<Rightarrow> Inl e
           | Inr out \<Rightarrow> Inr (mean (tpow (data out) 2), w\<lparr>generator := g'\<rparr>)))"

text \<open>
  \<^verbatim>\<open>(self.net(sample) - sin(np.pi * sample[:, 0])).pow(2).mean()\<close>: the subtraction is
  torch's, so it broadcasts the model's output against the vector of length \<open>n\<close>.
\<close>

definition bottom_boundary ::
  "('g, 'p, 'q) torch \<Rightarrow> ('g, 'p, 'q) globals \<Rightarrow> error + loss \<times> ('g, 'p, 'q) globals" where
  "bottom_boundary T w =
     (case bottom_sample T w of
        Inl e \<Rightarrow> Inl e
      | Inr (sample, g') \<Rightarrow>
          (case net (sol w) (params w) sample of
             Inl e \<Rightarrow> Inl e
           | Inr out \<Rightarrow>
               (case getitem_col 0 (data sample) of
                  Inl e \<Rightarrow> Inl e
                | Inr xs \<Rightarrow>
                    (case tsub (data out) (map (\<lambda>x. sin (pi * x)) xs) of
                       Inl e \<Rightarrow> Inl e
                     | Inr d \<Rightarrow> Inr (mean (tpow d 2), w\<lparr>generator := g'\<rparr>)))))"

text \<open>
  \<^verbatim>\<open>interior\<close>: the batch is drawn with the flag set and no column is overwritten; the
  helper is called twice on the same batch, the second time on the result of the first.
\<close>

definition interior_sample ::
  "('g, 'p, 'q) torch \<Rightarrow> ('g, 'p, 'q) globals \<Rightarrow> ttensor \<times> 'g" where
  "interior_sample T w = rand T (n_colpoints (sol w)) (n_inputs (sol w)) True (generator w)"

definition interior ::
  "('g, 'p, 'q) torch \<Rightarrow> ('g, 'p, 'q) globals \<Rightarrow> error + loss \<times> ('g, 'p, 'q) globals" where
  "interior T w =
     (case interior_sample T w of
        (sample, g') \<Rightarrow>
          (case net (sol w) (params w) sample of
             Inl e \<Rightarrow> Inl e
           | Inr out \<Rightarrow>
               (case calc_derivative T out sample of
                  (Inl e, sample1) \<Rightarrow> Inl e
                | (Inr first_both, sample1) \<Rightarrow>
                    (case calc_derivative T first_both sample1 of
                       (Inl e, sample2) \<Rightarrow> Inl e
                     | (Inr second_both, sample2) \<Rightarrow>
                         (case getitem_col 0 (data second_both) of
                            Inl e \<Rightarrow> Inl e
                          | Inr c0 \<Rightarrow>
                              (case getitem_col 1 (data second_both) of
                                 Inl e \<Rightarrow> Inl e
                               | Inr c1 \<Rightarrow>
                                   (case tadd (Vec c0) c1 of
                                      Inl e \<Rightarrow> Inl e
                                    | Inr lap \<Rightarrow>
                                        Inr (mean (tpow lap 2), w\<lparr>generator := g'\<rparr>))))))))"

section \<open>The training driver\<close>

text \<open>
  The sum of two losses is nan when one of them is. \<open>log_call\<close> records a call of the loop.
\<close>

definition add_loss :: "loss \<Rightarrow> loss \<Rightarrow> loss" where
  "add_loss a b = (case a of None \<Rightarrow> None | Some x \<Rightarrow> (case b of None \<Rightarrow> None | Some y \<Rightarrow> Some (x + y)))"

definition log_call :: "event \<Rightarrow> ('g, 'p, 'q) globals \<Rightarrow> ('g, 'p, 'q) globals" where
  "log_call e w = w\<lparr>calls := calls w @ [e]\<rparr>"

text \<open>
  One pass through the body of \<^verbatim>\<open>for epoch in range(1000)\<close>. Python evaluates the five
  summands from left to right; an exception in any call leaves the loop.
\<close>

definition epoch ::
  "('g, 'p, 'q) torch \<Rightarrow> ('g, 'p, 'q) globals \<Rightarrow> error + ('g, 'p, 'q) globals" where
  "epoch T w =
     (let w0 = log_call ZeroGrad (w\<lparr>opt := zero_grad T (opt w)\<rparr>) in
      case left_boundary T (log_call LeftBoundary w0) of
        Inl e \<Rightarrow> Inl e
      | Inr (l1, w1) \<Rightarrow>
      (case right_boundary T (log_call RightBoundary w1) of
        Inl e \<Rightarrow> Inl e
      | Inr (l2, w2) \<Rightarrow>
      (case top_boundary T (log_call TopBoundary w2) of
        Inl e \<Rightarrow> Inl e
      | Inr (l3, w3) \<Rightarrow>
      (case bottom_boundary T (log_call BottomBoundary w3) of
        Inl e \<Rightarrow> Inl e
      | Inr (l4, w4) \<Rightarrow>
      (case interior T (log_call Interior w4) of
        Inl e \<Rightarrow> Inl e
      | Inr (l5, w5) \<Rightarrow>
      (case backward T (add_loss (add_loss (add_loss (add_loss l1 l2) l3) l4) l5)
              (params w5) (opt w5) of
        Inl e \<Rightarrow> Inl e
      | Inr q \<Rightarrow>
      (let w6 = log_call Backward (w5\<lparr>opt := q\<rparr>) in
       case step T (opt w6) (params w6) of
         (p', q') \<Rightarrow> Inr (log_call Step (w6\<lparr>params := p', opt := q'\<rparr>)))))))))"



definition iteration_calls :: "event list" where
  "iteration_calls =
     [ZeroGrad, LeftBoundary, RightBoundary, TopBoundary, BottomBoundary, Interior,
      Backward, Step]"

section \<open>Test fixtures\<close>

text \<open>
  A generator that replays a recorded stream of draws (a recorded number outside the
  range of \<^verbatim>\<open>rand\<close> is replayed as 0, as is the end of the record), and the library
  instantiated with it, with the reverse-mode differentiation above, and with an
  optimizer that does nothing. Seeding with \<open>s\<close> records sixteen draws of \<open>1 / (s + 2)\<close>.
\<close>

fun replay :: "real list \<Rightarrow> real \<times> real list" where
  "replay [] = (0, [])"
| "replay (x # xs) = (if 0 \<le> x \<and> x < 1 then x else 0, xs)"

definition test_torch :: "(real list, unit, unit) torch" where
  "test_torch = \<lparr>seed_state = (\<lambda>s. replicate 16 (1 / (real s + 2))), next_uniform = replay,
     grad = autograd,
     zero_grad = (\<lambda>q. q), backward = (\<lambda>l p q. Inr q), step = (\<lambda>q p. (p, q))\<rparr>"

text \<open>
  The model \<open>u(x, y) = exp (- pi * x) * sin (pi * y)\<close>, one output per row, as a vector;
  under gradient tracking its output carries the graph of that expression in the leaves
  of its row.
\<close>

definition harmonic_node :: "nat \<Rightarrow> node" where
  "harmonic_node i = Mul (Exp (Mul (Const (- pi)) (Leaf i 0))) (Sin (Mul (Const pi) (Leaf i 1)))"

definition harmonic_net :: "'p \<Rightarrow> ttensor \<Rightarrow> error + ttensor" where
  "harmonic_net \<theta> s =
     (case data s of
        Mat m rows \<Rightarrow>
          (if m < 2 then Inl IndexError
           else Inr \<lparr>data = Vec (map (\<lambda>r. exp (- pi * (r ! 0)) * sin (pi * (r ! 1))) rows),
                     requires_grad = requires_grad s,
                     grad_fn = (if requires_grad s
                                then Some (Vec (map harmonic_node [0..<length rows]))
                                else None)\<rparr>)
      | Vec xs \<Rightarrow> Inl IndexError
      | Scalar a \<Rightarrow> Inl IndexError)"

text \<open>A sampler of two points in two dimensions over a record of four draws.\<close>

definition two_points :: "(real list, unit, unit) globals" where
  "two_points = \<lparr>generator = [3/10, 7/10, 2/10, 9/10],
     sol = \<lparr>net = harmonic_net, n_inputs = 2, n_colpoints = 2\<rparr>,
     params = (), opt = (), calls = []\<rparr>"

text \<open>
  A model that returns the constant \<open>c\<close> for every point of its batch, as a vector, and a
  sampler of two points with it.
\<close>

definition constant_net :: "real \<Rightarrow> 'p \<Rightarrow> ttensor \<Rightarrow> error + ttensor" where
  "constant_net c \<theta> s =
     Inr \<lparr>data = Vec (replicate (nrows (data s)) c), requires_grad = False, grad_fn = None\<rparr>"

definition constant_points :: "(real list, unit, unit) globals" where
  "constant_points = \<lparr>generator = [3/10, 7/10, 2/10, 9/10],
     sol = \<lparr>net = constant_net 3, n_inputs = 2, n_colpoints = 2\<rparr>,
     params = (), opt = (), calls = []\<rparr>"

text \<open>The same sampler later in a run: another generator state, calls already made.\<close>

definition two_points_later :: "(real list, unit, unit) globals" where
  "two_points_later = two_points\<lparr>generator := [1/2], calls := [ZeroGrad, LeftBoundary]\<rparr>"

text \<open>
  A sampler of one point with the model \<open>harmonic_net\<close>, over a record of the two draws
  \<open>x\<close> and \<open>y\<close>; a batch of one point that requires a gradient, and the output of
  \<open>harmonic_net\<close> on it.
\<close>

definition harmonic_point :: "real \<Rightarrow> real \<Rightarrow> (real list, unit, unit) globals" where
  "harmonic_point x y = \<lparr>generator = [x, y],
     sol = \<lparr>net = harmonic_net, n_inputs = 2, n_colpoints = 1\<rparr>,
     params = (), opt = (), calls = []\<rparr>"

definition tracked_point :: ttensor where
  "tracked_point = \<lparr>data = Mat 2 [[1/2, 1/4]], requires_grad = True, grad_fn = None\<rparr>"

definition tracked_output :: ttensor where
  "tracked_output = \<lparr>data = Vec [exp (- pi * (1/2)) * sin (pi * (1/4))], requires_grad = True,
     grad_fn = Some (Vec [harmonic_node 0])\<rparr>"

text \<open>
  The same point without the flag, and the output of \<open>harmonic_net\<close> on it, which has no
  graph.
\<close>

definition plain_point :: ttensor where
  "plain_point = \<lparr>data = Mat 2 [[1/2, 1/4]], requires_grad = False, grad_fn = None\<rparr>"

definition plain_output :: ttensor where
  "plain_output = \<lparr>data = Vec [exp (- pi * (1/2)) * sin (pi * (1/4))], requires_grad = False,
     grad_fn = None\<rparr>"

text \<open>
  The model \<open>u(x, y) = sin (pi * x)\<close>, which meets the bottom boundary condition exactly,
  returning one output per row as a matrix of one column (the shape \<open>(n, 1)\<close> of a
  network whose last layer has one output feature), and a sampler of two points with it.
\<close>

definition boundary_fit_net :: "'p \<Rightarrow> ttensor \<Rightarrow> error + ttensor" where
  "boundary_fit_net \<theta> s =
     (case data s of
        Mat m rows \<Rightarrow>
          (if m < 1 then Inl IndexError
           else Inr \<lparr>data = Mat 1 (map (\<lambda>r. [sin (pi * (r ! 0))]) rows),
                     requires_grad = False, grad_fn = None\<rparr>)
      | Vec xs \<Rightarrow> Inl IndexError
      | Scalar a \<Rightarrow> Inl IndexError)"

definition boundary_points :: "(real list, unit, unit) globals" where
  "boundary_points = \<lparr>generator = [0, 3/10, 1/2, 7/10],
     sol = \<lparr>net = boundary_fit_net, n_inputs = 2, n_colpoints = 2\<rparr>,
     params = (), opt = (), calls = []\<rparr>"

text \<open>A sampler of one point with the model that is zero everywhere; the draw is \<open>3/10\<close>.\<close>

definition zero_point :: "(real list, unit, unit) globals" where
  "zero_point = \<lparr>generator = [3/10, 7/10],
     sol = \<lparr>net = constant_net 0, n_inputs = 2, n_colpoints = 1\<rparr>,
     params = (), opt = (), calls = []\<rparr>"


section \<open>Properties stated by the specification\<close>

text \<open>
  \<open>drawn T w\<close> is the batch as \<^verbatim>\<open>rand\<close> returns it in the state \<open>w\<close>, before any column is
  overwritten. \<open>pinned_batch j v raw s\<close> says of a batch \<open>s\<close>: it is a matrix with the rows
  of \<open>raw\<close>, column \<open>j\<close> exists and holds \<open>v\<close> in every row, and every other coordinate is
  the one that was drawn and lies in \<open>[0, 1)\<close>.
\<close>

definition drawn :: "('g, 'p, 'q) torch \<Rightarrow> ('g, 'p, 'q) globals \<Rightarrow> real list list" where
  "drawn T w =
     fst (draw_rows (next_uniform T) (n_colpoints (sol w)) (n_inputs (sol w)) (generator w))"

definition pinned_batch :: "nat \<Rightarrow> real \<Rightarrow> real list list \<Rightarrow> ttensor \<Rightarrow> bool" where
  "pinned_batch j v raw s =
     (case data s of
        Mat m rows \<Rightarrow>
          j < m \<and> length rows = length raw \<and>
          (\<forall>i<length rows. length (rows ! i) = m \<and> rows ! i ! j = v \<and>
             (\<forall>k<m. k \<noteq> j \<longrightarrow> rows ! i ! k = raw ! i ! k \<and> 0 \<le> rows ! i ! k \<and> rows ! i ! k < 1))
      | Vec xs \<Rightarrow> False
      | Scalar a \<Rightarrow> False)"

text \<open>The range of \<^verbatim>\<open>rand\<close>: every draw lies in \<open>[0, 1)\<close>.\<close>

definition uniform01 :: "('g, 'p, 'q) torch \<Rightarrow> bool" where
  "uniform01 T = (\<forall>g. 0 \<le> fst (next_uniform T g) \<and> fst (next_uniform T g) < 1)"

text \<open>
  A model returns the constant \<open>c\<close> on every input: it never raises, and its output has
  one element per row of the batch, each equal to \<open>c\<close>.
\<close>

definition constant_model :: "('p \<Rightarrow> ttensor \<Rightarrow> error + ttensor) \<Rightarrow> real \<Rightarrow> bool" where
  "constant_model f c =
     (\<forall>\<theta> s. \<exists>out. f \<theta> s = Inr out \<and> elements (data out) = replicate (nrows (data s)) c)"

text \<open>
  The conditions under which no call of a sampler method raises and no loss is nan.
  \<open>per_point n t\<close>: the tensor \<open>t\<close> holds one scalar for each of \<open>n\<close> points, as a vector
  of length \<open>n\<close> or as a matrix of \<open>n\<close> rows and one column. \<open>model_ok m f\<close>: on a batch
  with \<open>m\<close> columns the model \<open>f\<close> returns such a tensor, with a graph when the batch
  requires a gradient. \<open>grad_ok T\<close>: the derivative of an output with a graph, with
  respect to a batch that requires a gradient, has the shape of the batch and a graph.
  \<open>well_formed T w\<close>: the sampler has at least one collocation point and at least the two
  columns its methods address, and its model and the library are as above.
  \<open>backward_ok T\<close>: \<^verbatim>\<open>loss.backward()\<close> does not raise.
\<close>

definition per_point :: "nat \<Rightarrow> 'a tensor \<Rightarrow> bool" where
  "per_point n t =
     (case t of
        Vec ys \<Rightarrow> length ys = n
      | Mat m rows \<Rightarrow> m = 1 \<and> length rows = n \<and> list_all (\<lambda>r. length r = 1) rows
      | Scalar a \<Rightarrow> False)"

definition model_ok :: "nat \<Rightarrow> ('p \<Rightarrow> ttensor \<Rightarrow> error + ttensor) \<Rightarrow> bool" where
  "model_ok m f =
     (\<forall>\<theta> s rows. data s = Mat m rows \<longrightarrow>
        (\<exists>out. f \<theta> s = Inr out \<and> per_point (length rows) (data out)
               \<and> (requires_grad s \<longrightarrow> grad_fn out \<noteq> None)))"

definition grad_ok :: "('g, 'p, 'q) torch \<Rightarrow> bool" where
  "grad_ok T =
     (\<forall>out s m rows. grad_fn out \<noteq> None \<longrightarrow> requires_grad s \<longrightarrow> data s = Mat m rows \<longrightarrow>
        (\<exists>d rows'. grad T out s = Inr d \<and> grad_fn d \<noteq> None
                   \<and> data d = Mat m rows' \<and> length rows' = length rows))"

definition well_formed :: "('g, 'p, 'q) torch \<Rightarrow> ('g, 'p, 'q) globals \<Rightarrow> bool" where
  "well_formed T w =
     (0 < n_colpoints (sol w) \<and> 1 < n_inputs (sol w)
      \<and> model_ok (n_inputs (sol w)) (net (sol w)) \<and> grad_ok T)"

definition backward_ok :: "('g, 'p, 'q) torch \<Rightarrow> bool" where
  "backward_ok T = (\<forall>l p q. \<exists>q'. backward T l p q = Inr q')"


text \<open>
  The leaves a node mentions. A model is local to its rows when the graph \<open>u i\<close> of its
  output at row \<open>i\<close> mentions leaves of row \<open>i\<close> only. \<open>second_col rows m i k u\<close> is the
  sum over the \<open>m\<close> coordinates \<open>j\<close> of the second derivative of \<open>u\<close> with respect to the
  coordinates \<open>j\<close> and \<open>k\<close> of row \<open>i\<close>, at the batch \<open>rows\<close>.
\<close>

fun leaves :: "node \<Rightarrow> (nat \<times> nat) set" where
  "leaves (Const c) = {}"
| "leaves (Leaf i j) = {(i, j)}"
| "leaves (Add a b) = leaves a \<union> leaves b"
| "leaves (Mul a b) = leaves a \<union> leaves b"
| "leaves (Sin a) = leaves a"
| "leaves (Cos a) = leaves a"
| "leaves (Exp a) = leaves a"

definition row_local :: "(nat \<Rightarrow> node) \<Rightarrow> bool" where
  "row_local u = (\<forall>i a b. (a, b) \<in> leaves (u i) \<longrightarrow> a = i)"

definition second_col :: "real list list \<Rightarrow> nat \<Rightarrow> nat \<Rightarrow> nat \<Rightarrow> node \<Rightarrow> real" where
  "second_col rows m i k u = (\<Sum>j<m. eval (entry rows) (partial i k (partial i j u)))"

text \<open>
  The loss the specification gives for \<open>bottom_boundary\<close>: the mean over the points of
  the batch of the squared difference between the output \<open>ys ! i\<close> of the model at point
  \<open>i\<close> and \<open>sin (pi * x)\<close> at the first coordinate \<open>x\<close> of the same point.
\<close>

definition bottom_spec :: "real list \<Rightarrow> real list list \<Rightarrow> loss" where
  "bottom_spec ys rows = mean (Vec (map2 (\<lambda>y r. (y - sin (pi * (r ! 0)))\<^sup>2) ys rows))"

text \<open>
  The loss the specification gives for \<open>interior\<close>, for a model whose output at row \<open>i\<close>
  has the graph \<open>u i\<close>: the mean over the rows of the square of the sum of the two pure
  second derivatives with respect to the first and the second coordinate of the row.
\<close>

definition laplacian :: "nat \<Rightarrow> node \<Rightarrow> node" where
  "laplacian i u = Add (partial i 0 (partial i 0 u)) (partial i 1 (partial i 1 u))"

definition interior_spec :: "(nat \<Rightarrow> node) \<Rightarrow> real list list \<Rightarrow> loss" where
  "interior_spec u rows =
     mean (Vec (map (\<lambda>i. (eval (entry rows) (laplacian i (u i)))\<^sup>2) [0..<length rows]))"

section \<open>Basic facts\<close>

lemma draw_row_Suc:
  "draw_row d (Suc k) g =
     (fst (d g) # fst (draw_row d k (snd (d g))), snd (draw_row d k (snd (d g))))"
  by (simp split: prod.splits)

lemma draw_rows_Suc:
  "draw_rows d (Suc n) m g =
     (fst (draw_row d m g) # fst (draw_rows d n m (snd (draw_row d m g))),
      snd (draw_rows d n m (snd (draw_row d m g))))"
  by (simp split: prod.splits)

lemma draw_row_length: "length (fst (draw_row d m g)) = m"
  by (induction m arbitrary: g) (simp_all add: draw_row_Suc del: draw_row.simps(2))

lemma draw_rows_length: "length (fst (draw_rows d n m g)) = n"
  by (induction n arbitrary: g) (simp_all add: draw_rows_Suc del: draw_rows.simps(2))

lemma draw_rows_row_length: "r \<in> set (fst (draw_rows d n m g)) \<Longrightarrow> length r = m"
proof (induction n arbitrary: g)
  case 0 then show ?case by simp
next
  case (Suc n)
  from Suc.prems have "r = fst (draw_row d m g) \<or> r \<in> set (fst (draw_rows d n m (snd (draw_row d m g))))"
    by (auto simp add: draw_rows_Suc simp del: draw_rows.simps(2))
  with Suc.IH show ?case by (auto simp: draw_row_length)
qed

lemma draw_row_range:
  assumes "\<forall>g. 0 \<le> fst (d g) \<and> fst (d g) < 1"
  shows "x \<in> set (fst (draw_row d m g)) \<Longrightarrow> 0 \<le> x \<and> x < 1"
proof (induction m arbitrary: g)
  case 0 then show ?case by simp
next
  case (Suc m)
  from Suc.prems have "x = fst (d g) \<or> x \<in> set (fst (draw_row d m (snd (d g))))"
    by (auto simp add: draw_row_Suc simp del: draw_row.simps(2))
  with assms Suc.IH show ?case by blast
qed

lemma draw_rows_range:
  assumes "\<forall>g. 0 \<le> fst (d g) \<and> fst (d g) < 1"
  shows "r \<in> set (fst (draw_rows d n m g)) \<Longrightarrow> x \<in> set r \<Longrightarrow> 0 \<le> x \<and> x < 1"
proof (induction n arbitrary: g)
  case 0 then show ?case by simp
next
  case (Suc n)
  from Suc.prems(1)
  have "r = fst (draw_row d m g) \<or> r \<in> set (fst (draw_rows d n m (snd (draw_row d m g))))"
    by (auto simp add: draw_rows_Suc simp del: draw_rows.simps(2))
  with Suc.IH Suc.prems(2) draw_row_range [OF assms] show ?case by blast
qed

lemma pinned_sample_Inr:
  "pinned_sample T j v w = Inr (s, g') \<longleftrightarrow>
     j < n_inputs (sol w) \<and>
     s = \<lparr>data = Mat (n_inputs (sol w))
            (map (\<lambda>r. r[j := v]) (fst (draw_rows (next_uniform T) (n_colpoints (sol w)) (n_inputs (sol w)) (generator w)))),
          requires_grad = False, grad_fn = None\<rparr> \<and>
     g' = snd (draw_rows (next_uniform T) (n_colpoints (sol w)) (n_inputs (sol w)) (generator w))"
  by (auto simp: pinned_sample_def rand_def split: prod.splits)

lemma elements_map_tensor: "elements (map_tensor f t) = map f (elements t)"
  by (cases t) (simp_all add: map_concat)

lemma mean_tpow_nonneg: "mean (tpow t 2) = Some v \<Longrightarrow> 0 \<le> v"
  by (auto simp: mean_def tpow_def elements_map_tensor split: if_splits intro!: divide_nonneg_nonneg sum_list_nonneg)

text \<open>
  The sampler of the script and the sampler with the constructor's defaults have a
  collocation point and the two columns the methods address.
\<close>

lemma script_sampler_shape:
  "0 < n_colpoints (script_sampler f) \<and> 1 < n_inputs (script_sampler f)"
  "0 < n_colpoints (default_sampler f) \<and> 1 < n_inputs (default_sampler f)"
  by (simp_all add: script_sampler_def default_sampler_def DomainSampling_init_def)

lemma uniform01_test_torch: "uniform01 test_torch"
proof -
  have "0 \<le> fst (replay g) \<and> fst (replay g) < 1" for g
    by (cases g) simp_all
  then show ?thesis by (simp add: uniform01_def test_torch_def)
qed

section \<open>The batches of the boundary methods\<close>

lemma pinned_sample_batch:
  assumes u: "uniform01 T" and r: "pinned_sample T j v w = Inr (s, g')"
  shows "pinned_batch j v (drawn T w) s"
proof -
  let ?raw = "drawn T w"
  let ?m = "n_inputs (sol w)"
  from r have j: "j < ?m" and s: "data s = Mat ?m (map (\<lambda>r. r[j := v]) ?raw)"
    by (simp_all add: pinned_sample_Inr drawn_def)
  have len: "\<And>i. i < length ?raw \<Longrightarrow> length (?raw ! i) = ?m"
    using draw_rows_row_length unfolding drawn_def by (metis nth_mem)
  have rng: "\<And>i k. i < length ?raw \<Longrightarrow> k < ?m \<Longrightarrow> 0 \<le> ?raw ! i ! k \<and> ?raw ! i ! k < 1"
  proof -
    fix i k assume i: "i < length ?raw" and k: "k < ?m"
    have "?raw ! i \<in> set ?raw" using i by simp
    moreover have "?raw ! i ! k \<in> set (?raw ! i)" using len [OF i] k by simp
    ultimately show "0 \<le> ?raw ! i ! k \<and> ?raw ! i ! k < 1"
      using u draw_rows_range [of "next_uniform T"] unfolding drawn_def uniform01_def by blast
  qed
  show ?thesis
    unfolding pinned_batch_def s using j len rng by simp
qed

text \<open>
  C3. Every batch that \<open>left_boundary\<close>, \<open>right_boundary\<close>, \<open>top_boundary\<close> or
  \<open>bottom_boundary\<close> hands to the model has its pinned coordinate equal to the pinned
  value in every row (first coordinate 0 for left, 1 for right; second coordinate 1 for
  top, 0 for bottom), and every other coordinate of every row is the number that was
  drawn, unchanged, and lies in \<open>[0, 1)\<close> when the draws of the generator do. A batch is
  produced exactly when the pinned column exists.
\<close>

theorem boundary_batches_pinned:
  assumes "uniform01 T"
  shows "(\<forall>s g'. left_sample T w = Inr (s, g') \<longrightarrow> pinned_batch 0 0 (drawn T w) s)
       \<and> (\<forall>s g'. right_sample T w = Inr (s, g') \<longrightarrow> pinned_batch 0 1 (drawn T w) s)
       \<and> (\<forall>s g'. top_sample T w = Inr (s, g') \<longrightarrow> pinned_batch 1 1 (drawn T w) s)
       \<and> (\<forall>s g'. bottom_sample T w = Inr (s, g') \<longrightarrow> pinned_batch 1 0 (drawn T w) s)
       \<and> ((\<exists>s g'. left_sample T w = Inr (s, g')) \<longleftrightarrow> 0 < n_inputs (sol w))
       \<and> ((\<exists>s g'. right_sample T w = Inr (s, g')) \<longleftrightarrow> 0 < n_inputs (sol w))
       \<and> ((\<exists>s g'. top_sample T w = Inr (s, g')) \<longleftrightarrow> 1 < n_inputs (sol w))
       \<and> ((\<exists>s g'. bottom_sample T w = Inr (s, g')) \<longleftrightarrow> 1 < n_inputs (sol w))"
  using assms pinned_sample_batch [of T]
  by (simp add: left_sample_def right_sample_def top_sample_def bottom_sample_def pinned_sample_Inr)

theorem boundary_batches_pinned_witness:
  "uniform01 test_torch
   \<and> left_sample test_torch two_points =
       Inr (\<lparr>data = Mat 2 [[0, 7/10], [0, 9/10]], requires_grad = False, grad_fn = None\<rparr>, [])
   \<and> pinned_batch 0 0 (drawn test_torch two_points)
       \<lparr>data = Mat 2 [[0, 7/10], [0, 9/10]], requires_grad = False, grad_fn = None\<rparr>
   \<and> right_sample test_torch two_points =
       Inr (\<lparr>data = Mat 2 [[1, 7/10], [1, 9/10]], requires_grad = False, grad_fn = None\<rparr>, [])
   \<and> pinned_batch 0 1 (drawn test_torch two_points)
       \<lparr>data = Mat 2 [[1, 7/10], [1, 9/10]], requires_grad = False, grad_fn = None\<rparr>
   \<and> top_sample test_torch two_points =
       Inr (\<lparr>data = Mat 2 [[3/10, 1], [2/10, 1]], requires_grad = False, grad_fn = None\<rparr>, [])
   \<and> pinned_batch 1 1 (drawn test_torch two_points)
       \<lparr>data = Mat 2 [[3/10, 1], [2/10, 1]], requires_grad = False, grad_fn = None\<rparr>
   \<and> bottom_sample test_torch two_points =
       Inr (\<lparr>data = Mat 2 [[3/10, 0], [2/10, 0]], requires_grad = False, grad_fn = None\<rparr>, [])
   \<and> pinned_batch 1 0 (drawn test_torch two_points)
       \<lparr>data = Mat 2 [[3/10, 0], [2/10, 0]], requires_grad = False, grad_fn = None\<rparr>"
proof -
  have u: "uniform01 test_torch" by (rule uniform01_test_torch)
  have l: "left_sample test_torch two_points =
       Inr (\<lparr>data = Mat 2 [[0, 7/10], [0, 9/10]], requires_grad = False, grad_fn = None\<rparr>, [])"
    by (simp add: left_sample_def pinned_sample_def rand_def two_points_def test_torch_def
        numeral_2_eq_2)
  have r: "right_sample test_torch two_points =
       Inr (\<lparr>data = Mat 2 [[1, 7/10], [1, 9/10]], requires_grad = False, grad_fn = None\<rparr>, [])"
    by (simp add: right_sample_def pinned_sample_def rand_def two_points_def test_torch_def
        numeral_2_eq_2)
  have t: "top_sample test_torch two_points =
       Inr (\<lparr>data = Mat 2 [[3/10, 1], [2/10, 1]], requires_grad = False, grad_fn = None\<rparr>, [])"
    by (simp add: top_sample_def pinned_sample_def rand_def two_points_def test_torch_def
        numeral_2_eq_2)
  have b: "bottom_sample test_torch two_points =
       Inr (\<lparr>data = Mat 2 [[3/10, 0], [2/10, 0]], requires_grad = False, grad_fn = None\<rparr>, [])"
    by (simp add: bottom_sample_def pinned_sample_def rand_def two_points_def test_torch_def
        numeral_2_eq_2)
  from boundary_batches_pinned [OF u, of two_points] l r t b u show ?thesis by blast
qed

section \<open>Constant models\<close>

lemma mean_replicate_sq:
  assumes "elements t = replicate n c" "0 < n"
  shows "mean (tpow t 2) = Some (c\<^sup>2)"
  using assms by (simp add: mean_def tpow_def elements_map_tensor sum_list_replicate)

lemma pinned_sample_nrows:
  "pinned_sample T j v w = Inr (s, g') \<Longrightarrow> nrows (data s) = n_colpoints (sol w)"
  by (simp add: pinned_sample_Inr draw_rows_length)

lemma pinned_sample_total:
  "j < n_inputs (sol w) \<Longrightarrow> \<exists>s g'. pinned_sample T j v w = Inr (s, g')"
  by (simp add: pinned_sample_Inr)

lemma constant_on_pinned:
  assumes c: "constant_model (net (sol w)) c" and n: "0 < n_colpoints (sol w)"
    and j: "j < n_inputs (sol w)"
  shows "\<exists>s g' out. pinned_sample T j v w = Inr (s, g') \<and> net (sol w) (params w) s = Inr out
           \<and> mean (tpow (data out) 2) = Some (c\<^sup>2)"
proof -
  from pinned_sample_total [OF j] obtain s g' where s: "pinned_sample T j v w = Inr (s, g')"
    by blast
  from c obtain out where o: "net (sol w) (params w) s = Inr out"
    and e: "elements (data out) = replicate (nrows (data s)) c"
    unfolding constant_model_def by blast
  from e pinned_sample_nrows [OF s] have "elements (data out) = replicate (n_colpoints (sol w)) c"
    by simp
  from mean_replicate_sq [OF this n] s o show ?thesis by blast
qed

lemma constant_model_constant_net: "constant_model (constant_net c) c"
  by (simp add: constant_model_def constant_net_def)

text \<open>
  C4. For a model that returns the same constant \<open>c\<close> on every input, \<open>left_boundary\<close>,
  \<open>right_boundary\<close> and \<open>top_boundary\<close> each return exactly \<open>c\<^sup>2\<close>, whatever the generator
  and its state, that is whatever batch is drawn: each is the mean of the squared
  outputs. The sampler has at least one collocation point (the mean of no element is
  nan) and the column the method pins (the assignment raises otherwise). The constant
  need not be nonzero.
\<close>

theorem constant_model_boundaries:
  assumes "constant_model (net (sol w)) c" and "0 < n_colpoints (sol w)"
  shows "(0 < n_inputs (sol w) \<longrightarrow> (\<exists>w'. left_boundary T w = Inr (Some (c\<^sup>2), w')))
       \<and> (0 < n_inputs (sol w) \<longrightarrow> (\<exists>w'. right_boundary T w = Inr (Some (c\<^sup>2), w')))
       \<and> (1 < n_inputs (sol w) \<longrightarrow> (\<exists>w'. top_boundary T w = Inr (Some (c\<^sup>2), w')))"
proof (intro conjI impI)
  assume j: "0 < n_inputs (sol w)"
  from constant_on_pinned [OF assms j, of T 0] 
  show "\<exists>w'. left_boundary T w = Inr (Some (c\<^sup>2), w')"
    by (auto simp: left_boundary_def left_sample_def)
  from constant_on_pinned [OF assms j, of T 1] 
  show "\<exists>w'. right_boundary T w = Inr (Some (c\<^sup>2), w')"
    by (auto simp: right_boundary_def right_sample_def)
next
  assume j: "1 < n_inputs (sol w)"
  from constant_on_pinned [OF assms j, of T 1] 
  show "\<exists>w'. top_boundary T w = Inr (Some (c\<^sup>2), w')"
    by (auto simp: top_boundary_def top_sample_def)
qed

theorem constant_model_boundaries_witness:
  "constant_model (net (sol constant_points)) 3
   \<and> 0 < n_colpoints (sol constant_points) \<and> 1 < n_inputs (sol constant_points)
   \<and> (\<exists>w'. left_boundary test_torch constant_points = Inr (Some (3\<^sup>2), w'))
   \<and> (\<exists>w'. right_boundary test_torch constant_points = Inr (Some (3\<^sup>2), w'))
   \<and> (\<exists>w'. top_boundary test_torch constant_points = Inr (Some (3\<^sup>2), w'))"
proof -
  have c: "constant_model (net (sol constant_points)) 3"
    by (simp add: constant_points_def constant_model_constant_net)
  have n: "0 < n_colpoints (sol constant_points)" and m: "1 < n_inputs (sol constant_points)"
    by (simp_all add: constant_points_def)
  from constant_model_boundaries [OF c n, of test_torch] c n m show ?thesis by simp
qed

section \<open>Losses are means of squares\<close>

lemma per_point_elements:
  assumes "per_point n t" "0 < n"
  shows "elements t \<noteq> []"
proof (cases t)
  case (Scalar a) then show ?thesis by simp
next
  case (Vec xs) with assms show ?thesis by (auto simp: per_point_def)
next
  case (Mat m rows)
  with assms obtain r0 rs where rows: "rows = r0 # rs" and "length r0 = 1"
    by (cases rows) (auto simp: per_point_def)
  then have "r0 \<noteq> []" by auto
  with Mat rows show ?thesis by simp
qed

lemma mean_tpow_Some: "elements t \<noteq> [] \<Longrightarrow> \<exists>v. mean (tpow t 2) = Some v"
  by (simp add: mean_def tpow_def elements_map_tensor)

lemma broadcast_list_nonempty:
  "xs \<noteq> [] \<Longrightarrow> ys \<noteq> [] \<Longrightarrow> broadcast_list f xs ys \<noteq> []"
  by (auto simp: broadcast_list_def)

lemma per_point_broadcast:
  assumes "per_point n t" "length ys = n" "0 < n"
  shows "\<exists>d. broadcast_vec f t ys = Inr d \<and> elements d \<noteq> []"
proof (cases t)
  case (Scalar a) with assms show ?thesis by (simp add: per_point_def)
next
  case (Vec xs)
  with assms have "xs \<noteq> []" "ys \<noteq> []" "length xs = length ys" by (auto simp: per_point_def)
  with Vec show ?thesis by (simp add: compatible_def broadcast_list_nonempty)
next
  case (Mat m rows)
  with assms have m: "m = 1" and r: "rows \<noteq> []" and a: "\<forall>r\<in>set rows. length r = 1" and y: "ys \<noteq> []"
    by (auto simp: per_point_def list_all_iff)
  from r obtain r0 rs where rows: "rows = r0 # rs" by (cases rows) auto
  with a have "r0 \<noteq> []" by auto
  with y have "broadcast_list f r0 ys \<noteq> []" by (simp add: broadcast_list_nonempty)
  with Mat m rows show ?thesis by (simp add: compatible_def)
qed

lemma pinned_total_shape:
  assumes "j < n_inputs (sol w)"
  shows "\<exists>s g' rows. pinned_sample T j v w = Inr (s, g') \<and> data s = Mat (n_inputs (sol w)) rows
           \<and> length rows = n_colpoints (sol w) \<and> \<not> requires_grad s"
  using assms by (simp add: pinned_sample_Inr draw_rows_length)

lemma sq_loss_total:
  assumes wf: "well_formed T w" and j: "j < n_inputs (sol w)"
  shows "\<exists>s g' out v. pinned_sample T j c w = Inr (s, g') \<and> net (sol w) (params w) s = Inr out
            \<and> mean (tpow (data out) 2) = Some v"
proof -
  from pinned_total_shape [OF j] obtain s g' rows where s: "pinned_sample T j c w = Inr (s, g')"
    and d: "data s = Mat (n_inputs (sol w)) rows" and l: "length rows = n_colpoints (sol w)"
    by blast
  from wf d obtain out where o: "net (sol w) (params w) s = Inr out"
    and p: "per_point (length rows) (data out)"
    unfolding well_formed_def model_ok_def by blast
  from wf l have "0 < length rows" by (simp add: well_formed_def)
  from mean_tpow_Some [OF per_point_elements [OF p this]] s o show ?thesis by blast
qed

lemma left_boundary_total:
  "well_formed T w \<Longrightarrow> \<exists>v w'. left_boundary T w = Inr (Some v, w')"
  using sq_loss_total [of T w 0 0]
  by (auto simp: left_boundary_def left_sample_def well_formed_def)

lemma right_boundary_total:
  "well_formed T w \<Longrightarrow> \<exists>v w'. right_boundary T w = Inr (Some v, w')"
  using sq_loss_total [of T w 0 1]
  by (auto simp: right_boundary_def right_sample_def well_formed_def)

lemma top_boundary_total:
  "well_formed T w \<Longrightarrow> \<exists>v w'. top_boundary T w = Inr (Some v, w')"
  using sq_loss_total [of T w 1 1]
  by (auto simp: top_boundary_def top_sample_def well_formed_def)

lemma bottom_boundary_total:
  assumes wf: "well_formed T w"
  shows "\<exists>v w'. bottom_boundary T w = Inr (Some v, w')"
proof -
  from wf have j: "1 < n_inputs (sol w)" and n: "0 < n_colpoints (sol w)"
    by (simp_all add: well_formed_def)
  from pinned_total_shape [OF j] obtain s g' rows where s: "pinned_sample T 1 0 w = Inr (s, g')"
    and d: "data s = Mat (n_inputs (sol w)) rows" and l: "length rows = n_colpoints (sol w)"
    by blast
  from wf d obtain out where o: "net (sol w) (params w) s = Inr out"
    and p: "per_point (length rows) (data out)"
    unfolding well_formed_def model_ok_def by blast
  from j d have c: "getitem_col 0 (data s) = Inr (map (\<lambda>r. r ! 0) rows)" by simp
  let ?ys = "map (\<lambda>x. sin (pi * x)) (map (\<lambda>r. r ! 0) rows)"
  from per_point_broadcast [OF p, of ?ys "\<lambda>a b. a - b"] n l
  obtain df where t: "tsub (data out) ?ys = Inr df" and e: "elements df \<noteq> []"
    by (auto simp: tsub_def)
  from mean_tpow_Some [OF e] obtain v where "mean (tpow df 2) = Some v" by blast
  with s o c t show ?thesis
    by (simp add: bottom_boundary_def bottom_sample_def)
qed

lemma rand_eq:
  "rand T n m rg g =
     (\<lparr>data = Mat m (fst (draw_rows (next_uniform T) n m g)), requires_grad = rg, grad_fn = None\<rparr>,
      snd (draw_rows (next_uniform T) n m g))"
  by (simp add: rand_def split: prod.splits)

lemma model_okD:
  "model_ok m f \<Longrightarrow> data s = Mat m rows \<Longrightarrow>
     \<exists>out. f \<theta> s = Inr out \<and> per_point (length rows) (data out)
               \<and> (requires_grad s \<longrightarrow> grad_fn out \<noteq> None)"
  unfolding model_ok_def by blast

lemma grad_okD:
  "grad_ok T \<Longrightarrow> grad_fn out \<noteq> None \<Longrightarrow> requires_grad s \<Longrightarrow> data s = Mat m rows \<Longrightarrow>
     \<exists>d rows'. grad T out s = Inr d \<and> grad_fn d \<noteq> None
                   \<and> data d = Mat m rows' \<and> length rows' = length rows"
  unfolding grad_ok_def by blast

lemma interior_total:
  assumes wf: "well_formed T w"
  shows "\<exists>v w'. interior T w = Inr (Some v, w')"
proof -
  let ?m = "n_inputs (sol w)"
  from wf have j: "1 < ?m" and n: "0 < n_colpoints (sol w)" and g: "grad_ok T"
    and mo: "model_ok ?m (net (sol w))"
    by (simp_all add: well_formed_def)
  let ?rows = "fst (draw_rows (next_uniform T) (n_colpoints (sol w)) ?m (generator w))"
  let ?s = "\<lparr>data = Mat ?m ?rows, requires_grad = True, grad_fn = None\<rparr>"
  obtain g' where s: "interior_sample T w = (?s, g')"
    by (simp add: interior_sample_def rand_eq)
  obtain s rows where s_def: "s = ?s" and rows_def: "rows = ?rows" by blast
  have d: "data s = Mat ?m rows" and r: "requires_grad s"
    and l: "length rows = n_colpoints (sol w)"
    by (simp_all add: s_def rows_def draw_rows_length)
  from model_okD [OF mo d, of "params w"] r obtain out
    where o: "net (sol w) (params w) s = Inr out" and gf: "grad_fn out \<noteq> None"
    by blast
  from grad_okD [OF g gf r d] obtain d1 where 1: "grad T out s = Inr d1"
    and gf1: "grad_fn d1 \<noteq> None"
    by blast
  from grad_okD [OF g gf1 r d] obtain d2 rows2 where 2: "grad T d1 s = Inr d2"
    and dd: "data d2 = Mat ?m rows2" and l2: "length rows2 = length rows"
    by blast
  from r 1 have c1: "calc_derivative T out s = (Inr d1, s)" by (simp add: calc_derivative_def)
  from r 2 have c2: "calc_derivative T d1 s = (Inr d2, s)" by (simp add: calc_derivative_def)
  let ?c0 = "map (\<lambda>r. r ! 0) rows2" and ?c1 = "map (\<lambda>r. r ! 1) rows2"
  from j dd have g0: "getitem_col 0 (data d2) = Inr ?c0" and g1: "getitem_col 1 (data d2) = Inr ?c1"
    by simp_all
  have pp: "per_point (length rows2) (Vec ?c0)" by (simp add: per_point_def)
  from per_point_broadcast [OF pp, of ?c1 "\<lambda>a b. a + b"] l l2 n
  obtain lap where t: "tadd (Vec ?c0) ?c1 = Inr lap" and e: "elements lap \<noteq> []"
    by (auto simp: tadd_def)
  from mean_tpow_Some [OF e] obtain v where "mean (tpow lap 2) = Some v" by blast
  with s o c1 c2 g0 g1 t show ?thesis by (simp add: interior_def s_def [symmetric])
qed

lemma interior_nonneg: "interior T w = Inr (Some v, w') \<Longrightarrow> 0 \<le> v"
  by (auto simp: interior_def split: sum.splits prod.splits dest: mean_tpow_nonneg)

lemma bottom_nonneg: "bottom_boundary T w = Inr (Some v, w') \<Longrightarrow> 0 \<le> v"
  by (auto simp: bottom_boundary_def split: sum.splits prod.splits dest: mean_tpow_nonneg)

lemma left_nonneg: "left_boundary T w = Inr (Some v, w') \<Longrightarrow> 0 \<le> v"
  by (auto simp: left_boundary_def split: sum.splits prod.splits dest: mean_tpow_nonneg)

lemma right_nonneg: "right_boundary T w = Inr (Some v, w') \<Longrightarrow> 0 \<le> v"
  by (auto simp: right_boundary_def split: sum.splits prod.splits dest: mean_tpow_nonneg)

lemma top_nonneg: "top_boundary T w = Inr (Some v, w') \<Longrightarrow> 0 \<le> v"
  by (auto simp: top_boundary_def split: sum.splits prod.splits dest: mean_tpow_nonneg)

lemma model_ok_harmonic_net: "1 < m \<Longrightarrow> model_ok m harmonic_net"
  by (simp add: model_ok_def harmonic_net_def per_point_def)

lemma grad_ok_autograd: "grad T = autograd \<Longrightarrow> grad_ok T"
  by (auto simp: grad_ok_def autograd_def gradient_nodes_def Let_def)

lemma well_formed_two_points: "well_formed test_torch two_points"
  by (simp add: well_formed_def two_points_def model_ok_harmonic_net grad_ok_autograd test_torch_def)

text \<open>
  C9. Each of the five sampler methods returns a non-negative scalar: whenever a method
  returns a number, the number is at least 0, for every model, every library and every
  state of the generator; and for a well-formed sampler every method does return a
  number (no exception, no nan).
\<close>

theorem sampler_losses_nonnegative:
  "(\<forall>v w'. left_boundary T w = Inr (Some v, w') \<longrightarrow> 0 \<le> v)
   \<and> (\<forall>v w'. right_boundary T w = Inr (Some v, w') \<longrightarrow> 0 \<le> v)
   \<and> (\<forall>v w'. top_boundary T w = Inr (Some v, w') \<longrightarrow> 0 \<le> v)
   \<and> (\<forall>v w'. bottom_boundary T w = Inr (Some v, w') \<longrightarrow> 0 \<le> v)
   \<and> (\<forall>v w'. interior T w = Inr (Some v, w') \<longrightarrow> 0 \<le> v)
   \<and> (well_formed T w \<longrightarrow>
        (\<exists>v w'. left_boundary T w = Inr (Some v, w'))
      \<and> (\<exists>v w'. right_boundary T w = Inr (Some v, w'))
      \<and> (\<exists>v w'. top_boundary T w = Inr (Some v, w'))
      \<and> (\<exists>v w'. bottom_boundary T w = Inr (Some v, w'))
      \<and> (\<exists>v w'. interior T w = Inr (Some v, w')))"
  using left_nonneg [of T w] right_nonneg [of T w] top_nonneg [of T w] bottom_nonneg [of T w]
    interior_nonneg [of T w] left_boundary_total [of T w] right_boundary_total [of T w]
    top_boundary_total [of T w] bottom_boundary_total [of T w] interior_total [of T w]
  by blast

theorem sampler_losses_nonnegative_witness:
  "well_formed test_torch two_points
   \<and> (\<exists>v w'. left_boundary test_torch two_points = Inr (Some v, w') \<and> 0 \<le> v)
   \<and> (\<exists>v w'. right_boundary test_torch two_points = Inr (Some v, w') \<and> 0 \<le> v)
   \<and> (\<exists>v w'. top_boundary test_torch two_points = Inr (Some v, w') \<and> 0 \<le> v)
   \<and> (\<exists>v w'. bottom_boundary test_torch two_points = Inr (Some v, w') \<and> 0 \<le> v)
   \<and> (\<exists>v w'. interior test_torch two_points = Inr (Some v, w') \<and> 0 \<le> v)"
  using sampler_losses_nonnegative [of test_torch two_points] well_formed_two_points
  by blast

section \<open>The flag fix-up of the derivative helper\<close>

lemma flag_idem: "requires_grad t \<Longrightarrow> t\<lparr>requires_grad := True\<rparr> = t"
  by (cases t) simp

lemma calc_derivative_eq:
  "calc_derivative T outputs inputs =
     (grad T outputs (inputs\<lparr>requires_grad := True\<rparr>), inputs\<lparr>requires_grad := True\<rparr>)"
  by (simp add: calc_derivative_def Let_def flag_idem)

lemma autograd_flag_error:
  "autograd outputs inputs = Inl (RuntimeError NotRequiringGrad) \<Longrightarrow> \<not> requires_grad inputs"
  by (auto simp: autograd_def Let_def split: option.splits if_splits)

text \<open>
  C5. \<open>calc_derivative\<close> never fails for a missing flag: whatever the flag of \<open>inputs\<close>,
  the derivative is requested for \<open>inputs\<close> with the flag set, so the result of the helper
  is the result of \<open>grad\<close> on a flagged tensor, and an error of the helper is an error
  \<open>grad\<close> raises on a flagged tensor; when \<open>grad\<close> raises the error of a tensor that does
  not require a gradient for such tensors only, the helper never raises it. The fix-up
  is idempotent: calling the helper again on the tensor it left behind gives the same
  result and the same tensor, and on a tensor that is already flagged the helper leaves
  it as it is and takes the same path.
\<close>

theorem calc_derivative_fixup:
  "fst (calc_derivative T outputs inputs) = grad T outputs (inputs\<lparr>requires_grad := True\<rparr>)
   \<and> calc_derivative T outputs (snd (calc_derivative T outputs inputs))
       = calc_derivative T outputs inputs
   \<and> (requires_grad inputs \<longrightarrow>
        calc_derivative T outputs inputs = (grad T outputs inputs, inputs))
   \<and> (\<forall>e. fst (calc_derivative T outputs inputs) = Inl e \<longrightarrow>
        (\<exists>i. requires_grad i \<and> grad T outputs i = Inl e))
   \<and> ((\<forall>out i. grad T out i = Inl (RuntimeError NotRequiringGrad) \<longrightarrow> \<not> requires_grad i) \<longrightarrow>
        fst (calc_derivative T outputs inputs) \<noteq> Inl (RuntimeError NotRequiringGrad))"
proof (intro conjI allI impI)
  show "fst (calc_derivative T outputs inputs) = grad T outputs (inputs\<lparr>requires_grad := True\<rparr>)"
    by (simp add: calc_derivative_eq)
  show "calc_derivative T outputs (snd (calc_derivative T outputs inputs))
          = calc_derivative T outputs inputs"
    by (simp add: calc_derivative_eq)
next
  assume "requires_grad inputs"
  then show "calc_derivative T outputs inputs = (grad T outputs inputs, inputs)"
    by (simp add: calc_derivative_eq flag_idem)
next
  fix e assume "fst (calc_derivative T outputs inputs) = Inl e"
  then have "grad T outputs (inputs\<lparr>requires_grad := True\<rparr>) = Inl e"
    by (simp add: calc_derivative_eq)
  moreover have "requires_grad (inputs\<lparr>requires_grad := True\<rparr>)" by simp
  ultimately show "\<exists>i. requires_grad i \<and> grad T outputs i = Inl e" by blast
next
  assume h: "\<forall>out i. grad T out i = Inl (RuntimeError NotRequiringGrad) \<longrightarrow> \<not> requires_grad i"
  show "fst (calc_derivative T outputs inputs) \<noteq> Inl (RuntimeError NotRequiringGrad)"
  proof
    assume "fst (calc_derivative T outputs inputs) = Inl (RuntimeError NotRequiringGrad)"
    then have "grad T outputs (inputs\<lparr>requires_grad := True\<rparr>)
                 = Inl (RuntimeError NotRequiringGrad)"
      by (simp add: calc_derivative_eq)
    with h have "\<not> requires_grad (inputs\<lparr>requires_grad := True\<rparr>)" by blast
    then show False by simp
  qed
qed

theorem calc_derivative_fixup_witness:
  "requires_grad tracked_point
   \<and> calc_derivative test_torch tracked_output tracked_point
       = (grad test_torch tracked_output tracked_point, tracked_point)
   \<and> (\<exists>d. fst (calc_derivative test_torch tracked_output tracked_point) = Inr d)
   \<and> \<not> requires_grad plain_point
   \<and> grad test_torch tracked_output plain_point = Inl (RuntimeError NotRequiringGrad)
   \<and> fst (calc_derivative test_torch tracked_output plain_point)
        \<noteq> Inl (RuntimeError NotRequiringGrad)
   \<and> fst (calc_derivative test_torch plain_output plain_point) = Inl (RuntimeError NoGradFn)
   \<and> (\<exists>i. requires_grad i \<and> grad test_torch plain_output i = Inl (RuntimeError NoGradFn))
   \<and> fst (calc_derivative test_torch plain_output plain_point)
        \<noteq> Inl (RuntimeError NotRequiringGrad)"
proof -
  have r: "requires_grad tracked_point" by (simp add: tracked_point_def)
  have "\<exists>d. grad test_torch tracked_output tracked_point = Inr d"
    by (simp add: test_torch_def autograd_def tracked_point_def tracked_output_def Let_def)
  with calc_derivative_fixup [of test_torch tracked_output tracked_point] r
  have 1: "calc_derivative test_torch tracked_output tracked_point
             = (grad test_torch tracked_output tracked_point, tracked_point)
           \<and> (\<exists>d. fst (calc_derivative test_torch tracked_output tracked_point) = Inr d)"
    by simp
  have n: "\<not> requires_grad plain_point" by (simp add: plain_point_def)
  have g: "grad test_torch tracked_output plain_point = Inl (RuntimeError NotRequiringGrad)"
    by (simp add: test_torch_def autograd_def plain_point_def tracked_output_def)
  have e: "fst (calc_derivative test_torch plain_output plain_point) = Inl (RuntimeError NoGradFn)"
    by (simp add: calc_derivative_def test_torch_def autograd_def plain_point_def
        plain_output_def Let_def)
  have h: "\<forall>out i. grad test_torch out i = Inl (RuntimeError NotRequiringGrad)
             \<longrightarrow> \<not> requires_grad i"
    by (auto simp: test_torch_def dest: autograd_flag_error)
  from calc_derivative_fixup [of test_torch tracked_output plain_point] h
  have 3: "fst (calc_derivative test_torch tracked_output plain_point)
              \<noteq> Inl (RuntimeError NotRequiringGrad)"
    by blast
  from calc_derivative_fixup [of test_torch plain_output plain_point] e h
  have 2: "(\<exists>i. requires_grad i \<and> grad test_torch plain_output i = Inl (RuntimeError NoGradFn))
         \<and> fst (calc_derivative test_torch plain_output plain_point)
              \<noteq> Inl (RuntimeError NotRequiringGrad)"
    by blast
  from r 1 n g 3 e 2 show ?thesis by blast
qed

text \<open>
  C10. After any call \<open>calc_derivative outputs inputs\<close>, also one in which \<open>grad\<close> raises,
  the caller's tensor \<open>inputs\<close> has its flag \<open>requires_grad\<close> set, and it is otherwise the
  tensor it was: its values and its graph are not modified.
\<close>

theorem calc_derivative_side_effect:
  "snd (calc_derivative T outputs inputs) = inputs\<lparr>requires_grad := True\<rparr>
   \<and> requires_grad (snd (calc_derivative T outputs inputs))
   \<and> data (snd (calc_derivative T outputs inputs)) = data inputs
   \<and> grad_fn (snd (calc_derivative T outputs inputs)) = grad_fn inputs"
  by (simp add: calc_derivative_eq)

section \<open>What the sampler and the training loop write\<close>

lemma left_boundary_frame:
  "left_boundary T w = Inr (l, w') \<Longrightarrow> \<exists>g'. w' = w\<lparr>generator := g'\<rparr>"
  by (auto simp: left_boundary_def split: sum.splits prod.splits)

lemma right_boundary_frame:
  "right_boundary T w = Inr (l, w') \<Longrightarrow> \<exists>g'. w' = w\<lparr>generator := g'\<rparr>"
  by (auto simp: right_boundary_def split: sum.splits prod.splits)

lemma top_boundary_frame:
  "top_boundary T w = Inr (l, w') \<Longrightarrow> \<exists>g'. w' = w\<lparr>generator := g'\<rparr>"
  by (auto simp: top_boundary_def split: sum.splits prod.splits)

lemma bottom_boundary_frame:
  "bottom_boundary T w = Inr (l, w') \<Longrightarrow> \<exists>g'. w' = w\<lparr>generator := g'\<rparr>"
  by (auto simp: bottom_boundary_def split: sum.splits prod.splits)

lemma interior_frame:
  "interior T w = Inr (l, w') \<Longrightarrow> \<exists>g'. w' = w\<lparr>generator := g'\<rparr>"
  by (auto simp: interior_def split: sum.splits prod.splits)

lemma epoch_steps:
  assumes "epoch T w = Inr w'"
  shows "\<exists>l1 w1 l2 w2 l3 w3 l4 w4 l5 w5 q.
           left_boundary T
             (log_call LeftBoundary (log_call ZeroGrad (w\<lparr>opt := zero_grad T (opt w)\<rparr>)))
             = Inr (l1, w1)
         \<and> right_boundary T (log_call RightBoundary w1) = Inr (l2, w2)
         \<and> top_boundary T (log_call TopBoundary w2) = Inr (l3, w3)
         \<and> bottom_boundary T (log_call BottomBoundary w3) = Inr (l4, w4)
         \<and> interior T (log_call Interior w4) = Inr (l5, w5)
         \<and> backward T (add_loss (add_loss (add_loss (add_loss l1 l2) l3) l4) l5)
              (params w) (zero_grad T (opt w)) = Inr q
         \<and> w' = w\<lparr>generator := generator w5, params := fst (step T q (params w)),
                   opt := snd (step T q (params w)), calls := calls w @ iteration_calls\<rparr>"
proof -
  let ?w0 = "log_call ZeroGrad (w\<lparr>opt := zero_grad T (opt w)\<rparr>)"
  from assms obtain l1 w1 where 1: "left_boundary T (log_call LeftBoundary ?w0) = Inr (l1, w1)"
    by (auto simp: epoch_def Let_def split: sum.splits prod.splits)
  from assms 1 obtain l2 w2 where 2: "right_boundary T (log_call RightBoundary w1) = Inr (l2, w2)"
    by (auto simp: epoch_def Let_def split: sum.splits prod.splits)
  from assms 1 2 obtain l3 w3 where 3: "top_boundary T (log_call TopBoundary w2) = Inr (l3, w3)"
    by (auto simp: epoch_def Let_def split: sum.splits prod.splits)
  from assms 1 2 3 obtain l4 w4
    where 4: "bottom_boundary T (log_call BottomBoundary w3) = Inr (l4, w4)"
    by (auto simp: epoch_def Let_def split: sum.splits prod.splits)
  from assms 1 2 3 4 obtain l5 w5 where 5: "interior T (log_call Interior w4) = Inr (l5, w5)"
    by (auto simp: epoch_def Let_def split: sum.splits prod.splits)
  let ?l = "add_loss (add_loss (add_loss (add_loss l1 l2) l3) l4) l5"
  from assms 1 2 3 4 5 obtain q where 6: "backward T ?l (params w5) (opt w5) = Inr q"
    by (auto simp: epoch_def Let_def split: sum.splits prod.splits)
  from assms 1 2 3 4 5 6
  have w': "w' = log_call Step ((log_call Backward (w5\<lparr>opt := q\<rparr>))
               \<lparr>params := fst (step T q (params w5)), opt := snd (step T q (params w5))\<rparr>)"
    by (auto simp: epoch_def Let_def log_call_def split: sum.splits prod.splits)
  from left_boundary_frame [OF 1] obtain g1
    where g1: "w1 = (log_call LeftBoundary ?w0)\<lparr>generator := g1\<rparr>" by blast
  from right_boundary_frame [OF 2] obtain g2
    where g2: "w2 = (log_call RightBoundary w1)\<lparr>generator := g2\<rparr>" by blast
  from top_boundary_frame [OF 3] obtain g3
    where g3: "w3 = (log_call TopBoundary w2)\<lparr>generator := g3\<rparr>" by blast
  from bottom_boundary_frame [OF 4] obtain g4
    where g4: "w4 = (log_call BottomBoundary w3)\<lparr>generator := g4\<rparr>" by blast
  from interior_frame [OF 5] obtain g5
    where g5: "w5 = (log_call Interior w4)\<lparr>generator := g5\<rparr>" by blast
  have w5: "w5 = w\<lparr>generator := g5, opt := zero_grad T (opt w),
       calls := calls w @ [ZeroGrad, LeftBoundary, RightBoundary, TopBoundary, BottomBoundary,
                           Interior]\<rparr>"
    by (simp add: g1 g2 g3 g4 g5 log_call_def)
  have e: "w' = w\<lparr>generator := generator w5, params := fst (step T q (params w)),
                 opt := snd (step T q (params w)), calls := calls w @ iteration_calls\<rparr>"
    unfolding w' by (simp add: w5 log_call_def iteration_calls_def)
  from 6 have b: "backward T ?l (params w) (zero_grad T (opt w)) = Inr q"
    by (simp add: w5)
  from 1 2 3 4 5 b e show ?thesis by blast
qed

lemma epoch_frame:
  assumes "epoch T w = Inr w'"
  shows "\<exists>g q. w' = w\<lparr>generator := g, params := fst (step T q (params w)),
                 opt := snd (step T q (params w)), calls := calls w @ iteration_calls\<rparr>"
  using epoch_steps [OF assms] by blast

text \<open>
  C8. A sampler method that returns leaves the globals as they were but for the state of
  the generator: the parameters of the model, the sampler \<open>sol\<close> (its \<open>net\<close>,
  \<open>n_colpoints\<close>, \<open>n_inputs\<close>), the optimizer state and the record of calls are unchanged.
  One iteration of the training loop leaves the sampler unchanged, and the parameters
  after it are the ones \<open>step\<close> returns for the parameters before it.
\<close>

theorem sampler_frame:
  "(\<forall>l w'. left_boundary T w = Inr (l, w') \<longrightarrow>
        params w' = params w \<and> sol w' = sol w \<and> opt w' = opt w \<and> calls w' = calls w)
   \<and> (\<forall>l w'. right_boundary T w = Inr (l, w') \<longrightarrow>
        params w' = params w \<and> sol w' = sol w \<and> opt w' = opt w \<and> calls w' = calls w)
   \<and> (\<forall>l w'. top_boundary T w = Inr (l, w') \<longrightarrow>
        params w' = params w \<and> sol w' = sol w \<and> opt w' = opt w \<and> calls w' = calls w)
   \<and> (\<forall>l w'. bottom_boundary T w = Inr (l, w') \<longrightarrow>
        params w' = params w \<and> sol w' = sol w \<and> opt w' = opt w \<and> calls w' = calls w)
   \<and> (\<forall>l w'. interior T w = Inr (l, w') \<longrightarrow>
        params w' = params w \<and> sol w' = sol w \<and> opt w' = opt w \<and> calls w' = calls w)
   \<and> (\<forall>w'. epoch T w = Inr w' \<longrightarrow>
         sol w' = sol w \<and> (\<exists>q. params w' = fst (step T q (params w))))"
proof (intro conjI allI impI)
  fix l w' assume "left_boundary T w = Inr (l, w')"
  from left_boundary_frame [OF this]
  show "params w' = params w" "sol w' = sol w" "opt w' = opt w" "calls w' = calls w" by auto
next
  fix l w' assume "right_boundary T w = Inr (l, w')"
  from right_boundary_frame [OF this]
  show "params w' = params w" "sol w' = sol w" "opt w' = opt w" "calls w' = calls w" by auto
next
  fix l w' assume "top_boundary T w = Inr (l, w')"
  from top_boundary_frame [OF this]
  show "params w' = params w" "sol w' = sol w" "opt w' = opt w" "calls w' = calls w" by auto
next
  fix l w' assume "bottom_boundary T w = Inr (l, w')"
  from bottom_boundary_frame [OF this]
  show "params w' = params w" "sol w' = sol w" "opt w' = opt w" "calls w' = calls w" by auto
next
  fix l w' assume "interior T w = Inr (l, w')"
  from interior_frame [OF this]
  show "params w' = params w" "sol w' = sol w" "opt w' = opt w" "calls w' = calls w" by auto
next
  fix w' assume e: "epoch T w = Inr w'"
  from epoch_frame [OF e] show "sol w' = sol w" by auto
  from epoch_frame [OF e] show "\<exists>q. params w' = fst (step T q (params w))" by auto
qed

section \<open>The training loop\<close>



lemma well_formed_cong: "sol u = sol w \<Longrightarrow> well_formed T u = well_formed T w"
  by (simp add: well_formed_def)

lemma epoch_total:
  assumes wf: "well_formed T w" and b: "backward_ok T"
  shows "\<exists>w'. epoch T w = Inr w'"
proof -
  let ?w0 = "log_call ZeroGrad (w\<lparr>opt := zero_grad T (opt w)\<rparr>)"
  have wf0: "well_formed T (log_call LeftBoundary ?w0)"
    using wf by (simp add: well_formed_def log_call_def)
  from left_boundary_total [OF wf0] obtain v1 w1
    where 1: "left_boundary T (log_call LeftBoundary ?w0) = Inr (Some v1, w1)" by blast
  from left_boundary_frame [OF 1] wf0 have wf1: "well_formed T (log_call RightBoundary w1)"
    by (auto simp: well_formed_def log_call_def)
  from right_boundary_total [OF wf1] obtain v2 w2
    where 2: "right_boundary T (log_call RightBoundary w1) = Inr (Some v2, w2)" by blast
  from right_boundary_frame [OF 2] wf1 have wf2: "well_formed T (log_call TopBoundary w2)"
    by (auto simp: well_formed_def log_call_def)
  from top_boundary_total [OF wf2] obtain v3 w3
    where 3: "top_boundary T (log_call TopBoundary w2) = Inr (Some v3, w3)" by blast
  from top_boundary_frame [OF 3] wf2 have wf3: "well_formed T (log_call BottomBoundary w3)"
    by (auto simp: well_formed_def log_call_def)
  from bottom_boundary_total [OF wf3] obtain v4 w4
    where 4: "bottom_boundary T (log_call BottomBoundary w3) = Inr (Some v4, w4)" by blast
  from bottom_boundary_frame [OF 4] wf3 have wf4: "well_formed T (log_call Interior w4)"
    by (auto simp: well_formed_def log_call_def)
  from interior_total [OF wf4] obtain v5 w5
    where 5: "interior T (log_call Interior w4) = Inr (Some v5, w5)" by blast
  let ?l = "add_loss (add_loss (add_loss (add_loss (Some v1) (Some v2)) (Some v3)) (Some v4)) (Some v5)"
  from b obtain q where 6: "backward T ?l (params w5) (opt w5) = Inr q"
    unfolding backward_ok_def by blast
  show ?thesis
    by (simp add: epoch_def Let_def 1 2 3 4 5 6 split: prod.splits)
qed

lemma backward_ok_test_torch: "backward_ok test_torch"
  by (simp add: backward_ok_def test_torch_def)








section \<open>The sampler and the loop on the fixtures\<close>

theorem sampler_frame_witness:
  "(\<exists>l w'. left_boundary test_torch two_points = Inr (l, w')
      \<and> params w' = params two_points \<and> sol w' = sol two_points \<and> opt w' = opt two_points)
   \<and> (\<exists>l w'. right_boundary test_torch two_points = Inr (l, w')
      \<and> params w' = params two_points \<and> sol w' = sol two_points \<and> opt w' = opt two_points)
   \<and> (\<exists>l w'. top_boundary test_torch two_points = Inr (l, w')
      \<and> params w' = params two_points \<and> sol w' = sol two_points \<and> opt w' = opt two_points)
   \<and> (\<exists>l w'. bottom_boundary test_torch two_points = Inr (l, w')
      \<and> params w' = params two_points \<and> sol w' = sol two_points \<and> opt w' = opt two_points)
   \<and> (\<exists>l w'. interior test_torch two_points = Inr (l, w')
      \<and> params w' = params two_points \<and> sol w' = sol two_points \<and> opt w' = opt two_points)
   \<and> (\<exists>w'. epoch test_torch two_points = Inr w' \<and> sol w' = sol two_points)"
proof -
  note wf = well_formed_two_points
  note f = sampler_frame [of test_torch two_points]
  from left_boundary_total [OF wf] f
  have 1: "\<exists>l w'. left_boundary test_torch two_points = Inr (l, w')
      \<and> params w' = params two_points \<and> sol w' = sol two_points \<and> opt w' = opt two_points"
    by blast
  from right_boundary_total [OF wf] f
  have 2: "\<exists>l w'. right_boundary test_torch two_points = Inr (l, w')
      \<and> params w' = params two_points \<and> sol w' = sol two_points \<and> opt w' = opt two_points"
    by blast
  from top_boundary_total [OF wf] f
  have 3: "\<exists>l w'. top_boundary test_torch two_points = Inr (l, w')
      \<and> params w' = params two_points \<and> sol w' = sol two_points \<and> opt w' = opt two_points"
    by blast
  from bottom_boundary_total [OF wf] f
  have 4: "\<exists>l w'. bottom_boundary test_torch two_points = Inr (l, w')
      \<and> params w' = params two_points \<and> sol w' = sol two_points \<and> opt w' = opt two_points"
    by blast
  from interior_total [OF wf] f
  have 5: "\<exists>l w'. interior test_torch two_points = Inr (l, w')
      \<and> params w' = params two_points \<and> sol w' = sol two_points \<and> opt w' = opt two_points"
    by blast
  from epoch_total [OF wf backward_ok_test_torch] f
  have 6: "\<exists>w'. epoch test_torch two_points = Inr w' \<and> sol w' = sol two_points"
    by blast
  from 1 2 3 4 5 6 show ?thesis by blast
qed

section \<open>Sampling is a function of the generator state\<close>

lemma pinned_sample_cong:
  "generator w1 = generator w2 \<Longrightarrow> sol w1 = sol w2 \<Longrightarrow>
   pinned_sample T j v w1 = pinned_sample T j v w2"
  by (simp add: pinned_sample_def)

lemma left_boundary_cong:
  assumes "generator w1 = generator w2" "sol w1 = sol w2" "params w1 = params w2"
  shows "map_sum id fst (left_boundary T w1) = map_sum id fst (left_boundary T w2)"
  using assms by (simp add: left_boundary_def left_sample_def pinned_sample_cong [OF assms(1,2)]
      split: sum.splits prod.splits)

lemma right_boundary_cong:
  assumes "generator w1 = generator w2" "sol w1 = sol w2" "params w1 = params w2"
  shows "map_sum id fst (right_boundary T w1) = map_sum id fst (right_boundary T w2)"
  using assms by (simp add: right_boundary_def right_sample_def pinned_sample_cong [OF assms(1,2)]
      split: sum.splits prod.splits)

lemma top_boundary_cong:
  assumes "generator w1 = generator w2" "sol w1 = sol w2" "params w1 = params w2"
  shows "map_sum id fst (top_boundary T w1) = map_sum id fst (top_boundary T w2)"
  using assms by (simp add: top_boundary_def top_sample_def pinned_sample_cong [OF assms(1,2)]
      split: sum.splits prod.splits)

lemma bottom_boundary_cong:
  assumes "generator w1 = generator w2" "sol w1 = sol w2" "params w1 = params w2"
  shows "map_sum id fst (bottom_boundary T w1) = map_sum id fst (bottom_boundary T w2)"
  using assms by (simp add: bottom_boundary_def bottom_sample_def pinned_sample_cong [OF assms(1,2)]
      split: sum.splits prod.splits)

lemma interior_cong:
  assumes "generator w1 = generator w2" "sol w1 = sol w2" "params w1 = params w2"
  shows "map_sum id fst (interior T w1) = map_sum id fst (interior T w2)"
  using assms by (simp add: interior_def interior_sample_def
      split: sum.splits prod.splits)

text \<open>
  C7. Two runs of a sampler method, each right after \<open>manual_seed\<close> with the same seed,
  draw the same batch, whatever the generator state and the other globals were before
  seeding, for the same sampler; with the same model parameters they also return the
  same loss (or raise the same exception).
\<close>

theorem seeded_sampling_deterministic:
  assumes "sol w1 = sol w2"
  shows "left_sample T (manual_seed T s w1) = left_sample T (manual_seed T s w2)
       \<and> right_sample T (manual_seed T s w1) = right_sample T (manual_seed T s w2)
       \<and> top_sample T (manual_seed T s w1) = top_sample T (manual_seed T s w2)
       \<and> bottom_sample T (manual_seed T s w1) = bottom_sample T (manual_seed T s w2)
       \<and> interior_sample T (manual_seed T s w1) = interior_sample T (manual_seed T s w2)
       \<and> (params w1 = params w2 \<longrightarrow>
            map_sum id fst (left_boundary T (manual_seed T s w1))
              = map_sum id fst (left_boundary T (manual_seed T s w2))
          \<and> map_sum id fst (right_boundary T (manual_seed T s w1))
              = map_sum id fst (right_boundary T (manual_seed T s w2))
          \<and> map_sum id fst (top_boundary T (manual_seed T s w1))
              = map_sum id fst (top_boundary T (manual_seed T s w2))
          \<and> map_sum id fst (bottom_boundary T (manual_seed T s w1))
              = map_sum id fst (bottom_boundary T (manual_seed T s w2))
          \<and> map_sum id fst (interior T (manual_seed T s w1))
              = map_sum id fst (interior T (manual_seed T s w2)))"
proof -
  let ?u1 = "manual_seed T s w1" and ?u2 = "manual_seed T s w2"
  have g: "generator ?u1 = generator ?u2" and so: "sol ?u1 = sol ?u2"
    using assms by (simp_all add: manual_seed_def)
  have p: "params w1 = params w2 \<Longrightarrow> params ?u1 = params ?u2"
    by (simp add: manual_seed_def)
  show ?thesis
    using left_boundary_cong [OF g so p] right_boundary_cong [OF g so p]
      top_boundary_cong [OF g so p] bottom_boundary_cong [OF g so p] interior_cong [OF g so p]
    by (simp add: left_sample_def right_sample_def top_sample_def bottom_sample_def
        interior_sample_def pinned_sample_cong [OF g so] g so)
qed

theorem seeded_sampling_deterministic_witness:
  "sol two_points = sol two_points_later \<and> params two_points = params two_points_later
   \<and> generator two_points \<noteq> generator two_points_later
   \<and> left_sample test_torch (manual_seed test_torch 42 two_points)
       = left_sample test_torch (manual_seed test_torch 42 two_points_later)
   \<and> interior_sample test_torch (manual_seed test_torch 42 two_points)
       = interior_sample test_torch (manual_seed test_torch 42 two_points_later)
   \<and> map_sum id fst (bottom_boundary test_torch (manual_seed test_torch 42 two_points))
       = map_sum id fst (bottom_boundary test_torch (manual_seed test_torch 42 two_points_later))
   \<and> map_sum id fst (interior test_torch (manual_seed test_torch 42 two_points))
       = map_sum id fst (interior test_torch (manual_seed test_torch 42 two_points_later))"
proof -
  have s: "sol two_points = sol two_points_later"
    and p: "params two_points = params two_points_later"
    and g: "generator two_points \<noteq> generator two_points_later"
    by (simp_all add: two_points_later_def two_points_def)
  from seeded_sampling_deterministic [OF s, of test_torch 42] s p g show ?thesis by blast
qed

section \<open>The bottom boundary loss\<close>

text \<open>
  For a model whose output is a vector with one element per point, \<open>bottom_boundary\<close>
  returns the loss of the specification. For a model whose output is a matrix of one
  column, torch's subtraction broadcasts it against the vector of the \<open>sin (pi * x)\<close>, and
  the loss is the mean over all pairs of a point \<open>i\<close> and a point \<open>j\<close> of the squared
  difference between the output at \<open>i\<close> and \<open>sin (pi * x)\<close> at \<open>j\<close>.
\<close>

lemma bottom_boundary_vector_model:
  assumes s: "bottom_sample T w = Inr (s, g')" and d: "data s = Mat m rows"
    and o: "net (sol w) (params w) s = Inr out" and v: "data out = Vec ys"
    and l: "length ys = length rows"
  shows "bottom_boundary T w = Inr (bottom_spec ys rows, w\<lparr>generator := g'\<rparr>)"
proof -
  from s d have m: "0 < m"
    by (auto simp: bottom_sample_def pinned_sample_Inr)
  with d have c: "getitem_col 0 (data s) = Inr (map (\<lambda>r. r ! 0) rows)" by simp
  have t: "tsub (Vec ys) (map (\<lambda>x. sin (pi * x)) (map (\<lambda>r. r ! 0) rows))
        = Inr (Vec (map2 (\<lambda>y r. y - sin (pi * (r ! 0))) ys rows))"
    using l by (auto simp: tsub_def compatible_def broadcast_list_def zip_map2)
  have p: "tpow (Vec (map2 (\<lambda>y r. y - sin (pi * (r ! 0))) ys rows)) 2
        = Vec (map2 (\<lambda>y r. (y - sin (pi * (r ! 0)))\<^sup>2) ys rows)"
    by (simp add: tpow_def split_def)
  show ?thesis
    by (simp add: bottom_boundary_def s o v c t p bottom_spec_def del: map_map)
qed

lemma bottom_boundary_column_pairs:
  assumes s: "bottom_sample T w = Inr (s, g')" and d: "data s = Mat m rows"
    and o: "net (sol w) (params w) s = Inr out" and v: "data out = Mat 1 (map (\<lambda>y. [y]) ys)"
    and l: "length ys = length rows"
  shows "bottom_boundary T w =
     Inr (mean (Mat (length rows) (map (\<lambda>y. map (\<lambda>r. (y - sin (pi * (r ! 0)))\<^sup>2) rows) ys)),
          w\<lparr>generator := g'\<rparr>)"
proof -
  from s d have m: "0 < m"
    by (auto simp: bottom_sample_def pinned_sample_Inr)
  with d have c: "getitem_col 0 (data s) = Inr (map (\<lambda>r. r ! 0) rows)" by simp
  define xs where "xs = map (\<lambda>x. sin (pi * x)) (map (\<lambda>r. r ! 0) rows)"
  have b: "broadcast_list (\<lambda>a b. a - b) [y] xs = map (\<lambda>r. y - sin (pi * (r ! 0))) rows" for y
    unfolding xs_def by (cases rows) (auto simp: broadcast_list_def)
  have lx: "length xs = length rows" by (simp add: xs_def)
  have "map (\<lambda>r. broadcast_list (\<lambda>a b. a - b) r xs) (map (\<lambda>y. [y]) ys)
        = map (\<lambda>y. map (\<lambda>r. y - sin (pi * (r ! 0))) rows) ys"
    by (simp add: comp_def b)
  then have t: "tsub (Mat 1 (map (\<lambda>y. [y]) ys)) xs
        = Inr (Mat (length rows) (map (\<lambda>y. map (\<lambda>r. y - sin (pi * (r ! 0))) rows) ys))"
    by (simp add: tsub_def compatible_def lx)
  have p: "tpow (Mat (length rows) (map (\<lambda>y. map (\<lambda>r. y - sin (pi * (r ! 0))) rows) ys)) 2
        = Mat (length rows) (map (\<lambda>y. map (\<lambda>r. (y - sin (pi * (r ! 0)))\<^sup>2) rows) ys)"
    by (simp add: tpow_def comp_def)
  from t [unfolded xs_def] p show ?thesis
    by (simp add: bottom_boundary_def s o v c)
qed

text \<open>
  The two cases the specification singles out hold for either shape of the output: with
  the model that is zero everywhere the loss is the mean of \<open>(sin (pi * x))\<^sup>2\<close> over the
  points, and with one point drawn at \<open>x = 3/10\<close> it is \<open>(sin (pi * (3/10)))\<^sup>2\<close>.
\<close>

lemma map2_replicate:
  "length rows = n \<Longrightarrow> map2 f (replicate n c) rows = map (f c) rows"
  by (induction rows arbitrary: n) auto

lemma bottom_spec_zero:
  "bottom_spec (replicate (length rows) 0) rows
     = mean (Vec (map (\<lambda>r. (sin (pi * (r ! 0)))\<^sup>2) rows))"
  by (simp add: bottom_spec_def map2_replicate)

lemma sum_list_concat_replicate:
  "sum_list (concat (replicate n xs)) = real n * sum_list (xs :: real list)"
  by (induction n) (simp_all add: algebra_simps)

lemma length_concat_replicate: "length (concat (replicate n xs)) = n * length xs"
  by (induction n) simp_all

lemma mean_repeated_rows:
  "mean (Mat (length xs) (replicate (length xs) xs)) = mean (Vec xs)"
proof (cases "xs = []")
  case True then show ?thesis by (simp add: mean_def)
next
  case False
  then have n: "0 < length xs" by simp
  have ne: "concat (replicate (length xs) xs) \<noteq> []"
    using False n by (cases "length xs") auto
  show ?thesis
    using False n ne
    by (simp add: mean_def sum_list_concat_replicate length_concat_replicate)
qed

lemma bottom_boundary_zero_column:
  assumes s: "bottom_sample T w = Inr (s, g')" and d: "data s = Mat m rows"
    and o: "net (sol w) (params w) s = Inr out"
    and v: "data out = Mat 1 (map (\<lambda>y. [y]) (replicate (length rows) 0))"
  shows "bottom_boundary T w =
     Inr (mean (Vec (map (\<lambda>r. (sin (pi * (r ! 0)))\<^sup>2) rows)), w\<lparr>generator := g'\<rparr>)"
proof -
  let ?xs = "map (\<lambda>r. (sin (pi * (r ! 0)))\<^sup>2) rows"
  have "map (\<lambda>y. map (\<lambda>r. (y - sin (pi * (r ! 0)))\<^sup>2) rows) (replicate (length rows) 0)
        = replicate (length ?xs) ?xs"
    by (simp add: map_replicate)
  with bottom_boundary_column_pairs [OF s d o v] mean_repeated_rows [of ?xs]
  show ?thesis by simp
qed

lemma bottom_boundary_zero_point:
  "bottom_boundary test_torch zero_point
     = Inr (Some ((sin (pi * (3/10)))\<^sup>2), zero_point\<lparr>generator := []\<rparr>)"
  by (simp add: bottom_boundary_def bottom_sample_def pinned_sample_def rand_def
      zero_point_def test_torch_def constant_net_def tsub_def compatible_def
      broadcast_list_def mean_def tpow_def numeral_2_eq_2)

text \<open>
  C2, evaluated. The model \<open>boundary_fit_net\<close> returns \<open>sin (pi * x)\<close> for every point, in
  a matrix of one column. On the batch of the two points \<open>(0, 0)\<close> and \<open>(1/2, 0)\<close> its
  outputs are 0 and 1, equal to \<open>sin (pi * x)\<close> at each point, so the loss of the
  specification is 0; \<open>bottom_boundary\<close> returns \<open>1/2\<close>.
\<close>

theorem bottom_boundary_column_model:
  "bottom_sample test_torch boundary_points =
     Inr (\<lparr>data = Mat 2 [[0, 0], [1/2, 0]], requires_grad = False, grad_fn = None\<rparr>, [])
   \<and> map_sum id data (boundary_fit_net () \<lparr>data = Mat 2 [[0, 0], [1/2, 0]], requires_grad = False, grad_fn = None\<rparr>)
       = Inr (Mat 1 [[0], [1]])
   \<and> bottom_boundary test_torch boundary_points
       = Inr (Some (1/2), boundary_points\<lparr>generator := []\<rparr>)
   \<and> bottom_spec [0, 1] [[0, 0], [1/2, 0]] = Some 0"
  by (simp add: bottom_boundary_def bottom_sample_def pinned_sample_def rand_def
      boundary_points_def test_torch_def boundary_fit_net_def tsub_def compatible_def
      broadcast_list_def mean_def tpow_def bottom_spec_def numeral_2_eq_2)

section \<open>The interior loss\<close>

text \<open>
  \<open>partial\<close> is differentiation: the value of \<open>partial i j e\<close> is the derivative of the
  value of \<open>e\<close> as a function of the leaf \<open>(i, j)\<close>.
\<close>

lemma upt2: "[0..<2] = [0, 1]" by (simp add: upt_rec)

lemma partial_DERIV:
  "((\<lambda>t. eval (\<lambda>a b. if a = i \<and> b = j then t else env a b) e)
      has_real_derivative eval (\<lambda>a b. if a = i \<and> b = j then x else env a b) (partial i j e)) (at x)"
proof (induction e)
  case (Const c) show ?case by simp
next
  case (Leaf a b) show ?case by (cases "a = i \<and> b = j") auto
next
  case (Add a b) then show ?case by (auto intro!: derivative_eq_intros)
next
  case (Mul a b) then show ?case by (auto intro!: derivative_eq_intros)
next
  case (Sin a) then show ?case by (auto intro!: derivative_eq_intros)
next
  case (Cos a) then show ?case by (auto intro!: derivative_eq_intros)
next
  case (Exp a) then show ?case by (auto intro!: derivative_eq_intros)
qed

lemma harmonic_node_laplacian: "eval env (laplacian i (harmonic_node i)) = 0"
  by (simp add: laplacian_def harmonic_node_def algebra_simps)

lemma cos_quarter_sq: "(cos (pi * (1/4)))\<^sup>2 = 1/2" "(cos (pi / 4))\<^sup>2 = 1/2"
  by (simp_all add: cos_45 power2_eq_square)

lemma exp_half_sq: "(exp (- pi * (1/2)))\<^sup>2 = exp (- pi)" "(exp (- (pi / 2)))\<^sup>2 = exp (- pi)"
  by (simp_all add: power2_eq_square exp_add [symmetric])

lemma harmonic_mixed:
  "eval env (partial i 1 (partial i 0 (harmonic_node i)))
     = - (pi\<^sup>2) * exp (- pi * env i 0) * cos (pi * env i 1)"
  by (simp add: harmonic_node_def algebra_simps power2_eq_square)

lemma interior_harmonic_point:
  assumes "0 \<le> x" "x < 1" "0 \<le> y" "y < 1"
  shows "interior test_torch (harmonic_point x y) =
     Inr (Some (4 * pi ^ 4 * (exp (- pi * x))\<^sup>2 * (cos (pi * y))\<^sup>2),
          (harmonic_point x y)\<lparr>generator := []\<rparr>)"
  using assms
  apply (simp add: interior_def interior_sample_def rand_def harmonic_point_def test_torch_def harmonic_net_def
     calc_derivative_def autograd_def gradient_nodes_def Let_def upt2 sum_nodes_def
     harmonic_node_def entry_def tadd_def
     compatible_def broadcast_list_def mean_def tpow_def numeral_2_eq_2)
  apply (simp add: algebra_simps power2_eq_square power4_eq_xxxx)
  done

text \<open>
  What \<open>interior\<close> computes with reverse-mode differentiation, for a model local to its
  rows: the second call of the helper differentiates the sum of all elements of
  \<open>first_both\<close>, so column \<open>k\<close> of \<open>second_both\<close> holds, in row \<open>i\<close>, the sum over all
  coordinates \<open>j\<close> of the second derivative with respect to \<open>j\<close> and \<open>k\<close>. With two inputs
  the loss is the mean of the squares of the sum of the two pure second derivatives and
  the two mixed ones.
\<close>

lemma eval_sum_nodes: "eval env (sum_nodes ns) = sum_list (map (eval env) ns)"
  by (induction ns) (simp_all add: sum_nodes_def)

lemma eval_partial_sum_nodes:
  "eval env (partial a b (sum_nodes ns)) = sum_list (map (\<lambda>e. eval env (partial a b e)) ns)"
  by (induction ns) (simp_all add: sum_nodes_def)

lemma leaves_partial: "leaves (partial a b e) \<subseteq> leaves e"
  by (induction e) auto

lemma partial_absent: "(a, b) \<notin> leaves e \<Longrightarrow> eval env (partial a b e) = 0"
  by (induction e) auto

lemma partial_partial_absent:
  "(a, b) \<notin> leaves e \<Longrightarrow> eval env (partial c d (partial a b e)) = 0"
  by (induction e) (auto simp: partial_absent)

lemma second_partial_row_local:
  assumes "row_local u" and "\<not> (i' = r \<and> i = r)"
  shows "eval env (partial i k (partial i' j (u r))) = 0"
proof (cases "i' = r")
  case False
  with assms(1) have "(i', j) \<notin> leaves (u r)" by (auto simp: row_local_def)
  then show ?thesis by (rule partial_partial_absent)
next
  case True
  with assms(2) have "i \<noteq> r" by simp
  with assms(1) have "(i, k) \<notin> leaves (u r)" by (auto simp: row_local_def)
  with leaves_partial [of i' j "u r"] have "(i, k) \<notin> leaves (partial i' j (u r))" by blast
  then show ?thesis by (rule partial_absent)
qed

lemma sum_list_concat_map: "sum_list (concat xss) = sum_list (map sum_list xss)"
  by (induction xss) simp_all

lemma sum_list_upt: "sum_list (map f [0..<n]) = (\<Sum>x<n. f x)"
  by (simp add: interv_sum_list_conv_sum_set_nat atLeast0LessThan)

lemma second_derivative_entry:
  assumes rl: "row_local u" and i: "i < n"
  shows "eval env (sum_nodes (map (partial i k)
           (concat (map (\<lambda>i'. map (\<lambda>j. sum_nodes (map (partial i' j) (map u [0..<n]))) [0..<m])
                    [0..<n]))))
         = (\<Sum>j<m. eval env (partial i k (partial i j (u i))))"
proof -
  have inner: "(\<Sum>r<n. eval env (partial i k (partial i' j (u r))))
        = (if i' = i then eval env (partial i k (partial i j (u i))) else 0)" for i' j
  proof -
    have "(\<Sum>r<n. eval env (partial i k (partial i' j (u r))))
          = (\<Sum>r<n. if r = i then (if i' = i then eval env (partial i k (partial i j (u i))) else 0) else 0)"
      by (rule sum.cong) (auto simp: second_partial_row_local [OF rl])
    also have "\<dots> = (if i' = i then eval env (partial i k (partial i j (u i))) else 0)"
      using i by simp
    finally show ?thesis .
  qed
  have "eval env (sum_nodes (map (partial i k)
           (concat (map (\<lambda>i'. map (\<lambda>j. sum_nodes (map (partial i' j) (map u [0..<n]))) [0..<m])
                    [0..<n]))))
        = (\<Sum>i'<n. \<Sum>j<m. \<Sum>r<n. eval env (partial i k (partial i' j (u r))))"
    by (simp add: eval_sum_nodes map_concat sum_list_concat_map comp_def eval_partial_sum_nodes
        sum_list_upt)
  also have "\<dots> = (\<Sum>i'<n. \<Sum>j<m. if i' = i then eval env (partial i k (partial i j (u i))) else 0)"
    by (simp only: inner)
  also have "\<dots> = (\<Sum>i'<n. if i' = i then (\<Sum>j<m. eval env (partial i k (partial i j (u i)))) else 0)"
    by (rule sum.cong) auto
  also have "\<dots> = (\<Sum>j<m. eval env (partial i k (partial i j (u i))))"
    using i by simp
  finally show ?thesis .
qed

lemma interior_sample_eq:
  "interior_sample T w =
     (\<lparr>data = Mat (n_inputs (sol w)) (drawn T w), requires_grad = True, grad_fn = None\<rparr>,
      snd (draw_rows (next_uniform T) (n_colpoints (sol w)) (n_inputs (sol w)) (generator w)))"
  by (simp add: interior_sample_def rand_eq drawn_def)

lemma drawn_length: "length (drawn T w) = n_colpoints (sol w)"
  by (simp add: drawn_def draw_rows_length)

lemma map2_same: "map2 f (map a xs) (map b xs) = map (\<lambda>x. f (a x) (b x)) xs"
  by (induction xs) simp_all

lemma element_at_Mat: "element_at (Mat m rows) = entry rows"
  by (rule ext, rule ext) simp

lemma interior_autograd:
  assumes g: "grad T = autograd"
    and o: "net (sol w) (params w) (fst (interior_sample T w)) = Inr out"
    and gf: "grad_fn out = Some (Vec (map u [0..<n_colpoints (sol w)]))"
    and rl: "row_local u" and m: "1 < n_inputs (sol w)"
  shows "interior T w =
     Inr (mean (Vec (map (\<lambda>i. (second_col (drawn T w) (n_inputs (sol w)) i 0 (u i)
                               + second_col (drawn T w) (n_inputs (sol w)) i 1 (u i))\<^sup>2)
                      [0..<n_colpoints (sol w)])),
          w\<lparr>generator := snd (interior_sample T w)\<rparr>)"
proof -
  let ?m = "n_inputs (sol w)" and ?n = "n_colpoints (sol w)" and ?rows = "drawn T w"
  let ?env = "entry ?rows"
  define s where "s = fst (interior_sample T w)"
  define g' where "g' = snd (interior_sample T w)"
  have sg: "interior_sample T w = (s, g')" by (simp add: s_def g'_def)
  have ds: "data s = Mat ?m ?rows" and rs: "requires_grad s"
    by (simp_all add: s_def interior_sample_eq)
  have len: "length ?rows = ?n" by (rule drawn_length)
  define D1 where "D1 = map (\<lambda>i. map (\<lambda>j. sum_nodes (map (partial i j) (map u [0..<?n]))) [0..<?m]) [0..<?n]"
  define d1 where "d1 = \<lparr>data = Mat ?m (map (map (eval ?env)) D1), requires_grad = True,
                          grad_fn = Some (Mat ?m D1)\<rparr>"
  define D2 where "D2 = map (\<lambda>i. map (\<lambda>k. sum_nodes (map (partial i k) (concat D1))) [0..<?m]) [0..<?n]"
  define d2 where "d2 = \<lparr>data = Mat ?m (map (map (eval ?env)) D2), requires_grad = True,
                          grad_fn = Some (Mat ?m D2)\<rparr>"
  have a1: "autograd out s = Inr d1"
    by (simp add: autograd_def gradient_nodes_def element_at_Mat rs gf ds len Let_def d1_def
        D1_def del: element_at.simps)
  have a2: "autograd d1 s = Inr d2"
    by (simp add: autograd_def gradient_nodes_def element_at_Mat rs ds len Let_def d2_def
        D2_def d1_def del: element_at.simps)
  have c1: "calc_derivative T out s = (Inr d1, s)"
    by (simp add: calc_derivative_def rs g a1)
  have c2: "calc_derivative T d1 s = (Inr d2, s)"
    by (simp add: calc_derivative_def rs g a2)
  have col: "map (\<lambda>r. r ! k) (map (map (eval ?env)) D2)
           = map (\<lambda>i. second_col ?rows ?m i k (u i)) [0..<?n]" if k: "k < ?m" for k
  proof (rule nth_equalityI)
    show "length (map (\<lambda>r. r ! k) (map (map (eval ?env)) D2))
        = length (map (\<lambda>i. second_col ?rows ?m i k (u i)) [0..<?n])"
      by (simp add: D2_def)
  next
    fix i assume "i < length (map (\<lambda>r. r ! k) (map (map (eval ?env)) D2))"
    then have i: "i < ?n" by (simp add: D2_def)
    have "map (\<lambda>r. r ! k) (map (map (eval ?env)) D2) ! i
          = eval ?env (sum_nodes (map (partial i k) (concat D1)))"
      using i k by (simp add: D2_def)
    also have "\<dots> = second_col ?rows ?m i k (u i)"
      unfolding D1_def second_col_def by (rule second_derivative_entry [OF rl i])
    finally show "map (\<lambda>r. r ! k) (map (map (eval ?env)) D2) ! i
          = map (\<lambda>i. second_col ?rows ?m i k (u i)) [0..<?n] ! i"
      using i by simp
  qed
  from m have m0: "0 < ?m" by simp
  have g0: "getitem_col 0 (data d2) = Inr (map (\<lambda>i. second_col ?rows ?m i 0 (u i)) [0..<?n])"
    using m0 col [OF m0] by (simp add: d2_def)
  have g1: "getitem_col 1 (data d2) = Inr (map (\<lambda>i. second_col ?rows ?m i 1 (u i)) [0..<?n])"
    using m col [OF m] by (simp add: d2_def)
  have t: "tadd (Vec (map (\<lambda>i. second_col ?rows ?m i 0 (u i)) [0..<?n]))
                (map (\<lambda>i. second_col ?rows ?m i 1 (u i)) [0..<?n])
         = Inr (Vec (map (\<lambda>i. second_col ?rows ?m i 0 (u i) + second_col ?rows ?m i 1 (u i)) [0..<?n]))"
    by (simp add: tadd_def compatible_def broadcast_list_def map2_same)
  have p: "tpow (Vec (map (\<lambda>i. second_col ?rows ?m i 0 (u i) + second_col ?rows ?m i 1 (u i)) [0..<?n])) 2
         = Vec (map (\<lambda>i. (second_col ?rows ?m i 0 (u i) + second_col ?rows ?m i 1 (u i))\<^sup>2) [0..<?n])"
    by (simp add: tpow_def comp_def)
  from o have o': "net (sol w) (params w) s = Inr out" by (simp add: s_def)
  from g0 g1 t p show ?thesis
    unfolding g'_def [symmetric]
    by (simp add: interior_def sg o' c1 c2)
qed

lemma harmonic_net_values:
  assumes "\<forall>r\<in>set rows. 2 \<le> length r"
  shows "map (\<lambda>r. exp (- pi * (r ! 0)) * sin (pi * (r ! 1))) rows
       = map (\<lambda>i. eval (entry rows) (harmonic_node i)) [0..<length rows]"
proof (rule nth_equalityI)
  show "length (map (\<lambda>r. exp (- pi * (r ! 0)) * sin (pi * (r ! 1))) rows)
      = length (map (\<lambda>i. eval (entry rows) (harmonic_node i)) [0..<length rows])" by simp
next
  fix i assume "i < length (map (\<lambda>r. exp (- pi * (r ! 0)) * sin (pi * (r ! 1))) rows)"
  then have i: "i < length rows" by simp
  with assms have "2 \<le> length (rows ! i)" by simp
  then have "0 < length (rows ! i)" "1 < length (rows ! i)" by linarith+
  with i show "map (\<lambda>r. exp (- pi * (r ! 0)) * sin (pi * (r ! 1))) rows ! i
      = map (\<lambda>i. eval (entry rows) (harmonic_node i)) [0..<length rows] ! i"
    by (simp add: harmonic_node_def entry_def)
qed

lemma row_local_harmonic_node: "row_local harmonic_node"
  by (simp add: row_local_def harmonic_node_def)

lemma second_col_two:
  "second_col rows 2 i 0 u + second_col rows 2 i 1 u
     = eval (entry rows) (laplacian i u)
       + eval (entry rows) (partial i 0 (partial i 1 u))
       + eval (entry rows) (partial i 1 (partial i 0 u))"
  by (simp add: second_col_def laplacian_def lessThan_Suc numeral_2_eq_2)

text \<open>
  C1, evaluated. The model \<open>harmonic_net\<close> is \<open>u(x, y) = exp (- pi * x) * sin (pi * y)\<close>,
  whose two pure second derivatives sum to 0 at every point, so the loss of the
  specification is 0. On the batch of the one point \<open>(1/2, 1/4)\<close>, \<open>interior\<close> returns
  \<open>2 * pi ^ 4 * exp (- pi)\<close>, which is not 0: the second call of the helper differentiates
  the sum of both first derivatives, so each column of its result holds a pure second
  derivative plus the mixed one, and the loss is the square of
  \<open>u\<^sub>x\<^sub>x + 2 * u\<^sub>x\<^sub>y + u\<^sub>y\<^sub>y\<close>.
\<close>

theorem interior_harmonic_residual:
  "interior test_torch (harmonic_point (1/2) (1/4))
     = Inr (Some (2 * pi ^ 4 * exp (- pi)), (harmonic_point (1/2) (1/4))\<lparr>generator := []\<rparr>)
   \<and> 0 < 2 * pi ^ 4 * exp (- pi)
   \<and> interior_spec harmonic_node [[1/2, 1/4]] = Some 0"
proof (intro conjI)
  have "interior test_torch (harmonic_point (1/2) (1/4)) =
     Inr (Some (4 * pi ^ 4 * (exp (- pi * (1/2)))\<^sup>2 * (cos (pi * (1/4)))\<^sup>2),
          (harmonic_point (1/2) (1/4))\<lparr>generator := []\<rparr>)"
    by (rule interior_harmonic_point) simp_all
  also have "4 * pi ^ 4 * (exp (- pi * (1/2)))\<^sup>2 * (cos (pi * (1/4)))\<^sup>2 = 2 * pi ^ 4 * exp (- pi)"
    by (simp only: cos_quarter_sq exp_half_sq)
  finally show "interior test_torch (harmonic_point (1/2) (1/4))
     = Inr (Some (2 * pi ^ 4 * exp (- pi)), (harmonic_point (1/2) (1/4))\<lparr>generator := []\<rparr>)" .
  show "0 < 2 * pi ^ 4 * exp (- pi)" by simp
  show "interior_spec harmonic_node [[1/2, 1/4]] = Some 0"
    by (simp add: interior_spec_def harmonic_node_laplacian mean_def)
qed

end
